theory Spec2Isabelle
  imports Complex_Main
begin

section \<open>Python values\<close>

text \<open>
  A Python \<open>str\<close> is a sequence of Unicode code points, and the program's literals are
  mostly Cyrillic, so text is modelled as a list of code points (\<open>len\<close> is \<open>length\<close>).
  File contents are byte strings; an Isabelle \<open>char\<close> is one byte.
\<close>

type_synonym str = "nat list"
type_synonym bytes = "char list"

definition ascii :: "string \<Rightarrow> str" where
  "ascii s = map of_char s"

text \<open>\<open>str(n)\<close> for a non-negative integer: its decimal digits.\<close>

fun str_of_nat :: "nat \<Rightarrow> str" where
  "str_of_nat n = (if n < 10 then [48 + n] else str_of_nat (n div 10) @ [48 + n mod 10])"

declare str_of_nat.simps [simp del]

text \<open>
  \<open>str.isspace\<close> on one code point, and \<open>str.strip()\<close> with no argument, which removes
  the white space at both ends.
\<close>

definition isspace :: "nat \<Rightarrow> bool" where
  "isspace c \<longleftrightarrow>
     (9 \<le> c \<and> c \<le> 13) \<or> (28 \<le> c \<and> c \<le> 32) \<or> c = 133 \<or> c = 160 \<or> c = 5760 \<or>
     (8192 \<le> c \<and> c \<le> 8202) \<or> c = 8232 \<or> c = 8233 \<or> c = 8239 \<or> c = 8287 \<or> c = 12288"

definition strip :: "str \<Rightarrow> str" where
  "strip s = rev (dropWhile isspace (rev (dropWhile isspace s)))"

text \<open>
  Exceptions. \<open>CalledProcessError\<close> carries the exit status; \<open>PyException\<close> stands for
  every other exception class and carries its message.
\<close>

datatype exn = CalledProcessError nat | FileNotFoundError | KeyError | PyException str

section \<open>String literals of the source\<close>

text \<open>Each constant is the literal at the given line of \<open>app3.py\<close>, code point by code point.\<close>

definition init_error_prefix :: str where  (* line 98, 33 code points *)
  "init_error_prefix =
     [1054, 1096, 1080, 1073, 1082, 1072, 32, 1080, 1085, 1080, 1094, 1080, 1072, 1083,
      1080, 1079, 1072, 1094, 1080, 1080, 32, 79, 112, 101, 110, 65, 73, 32, 65, 80, 73, 58,
      32]"

definition extract_error_prefix :: str where  (* line 137, 29 code points *)
  "extract_error_prefix =
     [1054, 1096, 1080, 1073, 1082, 1072, 32, 1087, 1088, 1080, 32, 1080, 1079, 1074, 1083,
      1077, 1095, 1077, 1085, 1080, 1080, 32, 1072, 1091, 1076, 1080, 1086, 58, 32]"

definition transcribe_error_prefix :: str where  (* line 154, 26 code points *)
  "transcribe_error_prefix =
     [1054, 1096, 1080, 1073, 1082, 1072, 32, 1087, 1088, 1080, 32, 1090, 1088, 1072, 1085,
      1089, 1082, 1088, 1080, 1073, 1072, 1094, 1080, 1080, 58, 32]"

definition summarize_prompt_head :: str where  (* line 165, 103 code points *)
  "summarize_prompt_head =
     [1042, 32, 1088, 1072, 1084, 1082, 1072, 1093, 32, 1089, 1083, 1077, 1076, 1089, 1090,
      1074, 1077, 1085, 1085, 1099, 1093, 32, 1076, 1077, 1081, 1089, 1090, 1074, 1080,
      1081, 32, 1091, 1089, 1090, 1072, 1085, 1086, 1074, 1080, 1090, 1077, 32, 1076, 1086,
      1089, 1090, 1086, 1074, 1077, 1088, 1085, 1086, 1089, 1090, 1100, 32, 1087, 1086,
      1082, 1072, 1079, 1072, 1085, 1080, 1081, 46, 32, 1057, 1091, 1084, 1084, 1080, 1088,
      1091, 1081, 1090, 1077, 32, 1089, 1083, 1077, 1076, 1091, 1102, 1097, 1080, 1081, 32,
      1090, 1077, 1082, 1089, 1090, 32, 1085, 1072, 32, 1103, 1079, 1099, 1082, 1077, 32]"

definition summarize_prompt_tail :: str where  (* line 165, 104 code points *)
  "summarize_prompt_tail =
     [10, 10, 1044, 1072, 1081, 1090, 1077, 32, 1082, 1088, 1072, 1090, 1082, 1080, 1081,
      32, 1074, 1099, 1074, 1086, 1076, 32, 1086, 1089, 1085, 1086, 1074, 1085, 1099, 1093,
      32, 1084, 1086, 1084, 1077, 1085, 1090, 1086, 1074, 44, 32, 1089, 32, 1091, 1095,
      1077, 1090, 1086, 1084, 32, 1088, 1086, 1083, 1080, 32, 1089, 1083, 1077, 1076, 1089,
      1090, 1074, 1080, 1103, 32, 1074, 32, 1091, 1089, 1090, 1072, 1085, 1086, 1074, 1083,
      1077, 1085, 1080, 1080, 32, 1076, 1086, 1089, 1090, 1086, 1074, 1077, 1088, 1085,
      1086, 1089, 1090, 1080, 32, 1087, 1086, 1082, 1072, 1079, 1072, 1085, 1080, 1081, 46]"

definition summarize_role :: str where  (* line 173, 75 code points *)
  "summarize_role =
     [1042, 1099, 32, 1076, 1077, 1081, 1089, 1090, 1074, 1091, 1077, 1090, 1077, 32, 1082,
      1072, 1082, 32, 1086, 1087, 1099, 1090, 1085, 1099, 1081, 32, 1089, 1083, 1077, 1076,
      1086, 1074, 1072, 1090, 1077, 1083, 1100, 44, 32, 1086, 1094, 1077, 1085, 1080, 1074,
      1072, 1102, 1097, 1080, 1081, 32, 1076, 1086, 1089, 1090, 1086, 1074, 1077, 1088,
      1085, 1086, 1089, 1090, 1100, 32, 1087, 1086, 1082, 1072, 1079, 1072, 1085, 1080,
      1081, 46]"

definition summarize_error_prefix :: str where  (* line 181, 25 code points *)
  "summarize_error_prefix =
     [1054, 1096, 1080, 1073, 1082, 1072, 32, 1087, 1088, 1080, 32, 1089, 1091, 1084, 1084,
      1072, 1088, 1080, 1079, 1072, 1094, 1080, 1080, 58, 32]"

definition sequence_prompt_head :: str where  (* line 186, 228 code points *)
  "sequence_prompt_head =
     [1055, 1088, 1086, 1072, 1085, 1072, 1083, 1080, 1079, 1080, 1088, 1091, 1081, 1090,
      1077, 32, 1089, 1083, 1077, 1076, 1091, 1102, 1097, 1080, 1081, 32, 1090, 1077, 1082,
      1089, 1090, 32, 1087, 1086, 1082, 1072, 1079, 1072, 1085, 1080, 1081, 32, 1089, 32,
      1090, 1086, 1095, 1082, 1080, 32, 1079, 1088, 1077, 1085, 1080, 1103, 32, 1089, 1083,
      1077, 1076, 1089, 1090, 1074, 1077, 1085, 1085, 1099, 1093, 32, 1076, 1077, 1081,
      1089, 1090, 1074, 1080, 1081, 46, 32, 1055, 1088, 1086, 1074, 1077, 1088, 1100, 1090,
      1077, 32, 1083, 1086, 1075, 1080, 1095, 1077, 1089, 1082, 1091, 1102, 32, 1087, 1086,
      1089, 1083, 1077, 1076, 1086, 1074, 1072, 1090, 1077, 1083, 1100, 1085, 1086, 1089,
      1090, 1100, 32, 1080, 1079, 1083, 1086, 1078, 1077, 1085, 1080, 1103, 32, 1080, 32,
      1074, 1099, 1076, 1077, 1083, 1080, 1090, 1077, 32, 1085, 1077, 1089, 1086, 1086,
      1090, 1074, 1077, 1090, 1089, 1090, 1074, 1080, 1103, 32, 1080, 1083, 1080, 32, 1087,
      1088, 1086, 1087, 1091, 1097, 1077, 1085, 1085, 1099, 1077, 32, 1096, 1072, 1075,
      1080, 44, 32, 1074, 1072, 1078, 1085, 1099, 1077, 32, 1076, 1083, 1103, 32, 1091,
      1089, 1090, 1072, 1085, 1086, 1074, 1083, 1077, 1085, 1080, 1103, 32, 1076, 1086,
      1089, 1090, 1086, 1074, 1077, 1088, 1085, 1086, 1089, 1090, 1080, 32, 1087, 1086,
      1082, 1072, 1079, 1072, 1085, 1080, 1081, 58, 10, 10]"

definition sequence_role :: str where  (* line 193, 67 code points *)
  "sequence_role =
     [1042, 1099, 32, 1089, 1083, 1077, 1076, 1086, 1074, 1072, 1090, 1077, 1083, 1100, 44,
      32, 1086, 1094, 1077, 1085, 1080, 1074, 1072, 1102, 1097, 1080, 1081, 32, 1087, 1086,
      1089, 1083, 1077, 1076, 1086, 1074, 1072, 1090, 1077, 1083, 1100, 1085, 1086, 1089,
      1090, 1100, 32, 1080, 1079, 1083, 1086, 1078, 1077, 1085, 1080, 1103, 32, 1087, 1086,
      1082, 1072, 1079, 1072, 1085, 1080, 1081, 46]"

definition sequence_error_prefix :: str where  (* line 201, 40 code points *)
  "sequence_error_prefix =
     [1054, 1096, 1080, 1073, 1082, 1072, 32, 1087, 1088, 1080, 32, 1087, 1088, 1086, 1074,
      1077, 1088, 1082, 1077, 32, 1087, 1086, 1089, 1083, 1077, 1076, 1086, 1074, 1072,
      1090, 1077, 1083, 1100, 1085, 1086, 1089, 1090, 1080, 58, 32]"

definition key_facts_prompt_head :: str where  (* line 206, 138 code points *)
  "key_facts_prompt_head =
     [1048, 1079, 1074, 1083, 1077, 1082, 1080, 1090, 1077, 32, 1080, 1079, 32, 1089, 1083,
      1077, 1076, 1091, 1102, 1097, 1077, 1075, 1086, 32, 1090, 1077, 1082, 1089, 1090,
      1072, 32, 1082, 1083, 1102, 1095, 1077, 1074, 1099, 1077, 32, 1092, 1072, 1082, 1090,
      1099, 44, 32, 1080, 1084, 1077, 1102, 1097, 1080, 1077, 32, 1079, 1085, 1072, 1095,
      1077, 1085, 1080, 1077, 32, 1074, 32, 1089, 1083, 1077, 1076, 1089, 1090, 1074, 1077,
      1085, 1085, 1086, 1084, 32, 1076, 1077, 1083, 1077, 44, 32, 1082, 1086, 1090, 1086,
      1088, 1099, 1077, 32, 1087, 1086, 1084, 1086, 1075, 1091, 1090, 32, 1091, 1089, 1090,
      1072, 1085, 1086, 1074, 1080, 1090, 1100, 32, 1076, 1086, 1089, 1090, 1086, 1074,
      1077, 1088, 1085, 1086, 1089, 1090, 1100, 32, 1087, 1086, 1082, 1072, 1079, 1072,
      1085, 1080, 1081, 58, 10, 10]"

definition key_facts_role :: str where  (* line 213, 70 code points *)
  "key_facts_role =
     [1042, 1099, 32, 1089, 1083, 1077, 1076, 1086, 1074, 1072, 1090, 1077, 1083, 1100, 44,
      32, 1074, 1099, 1076, 1077, 1083, 1103, 1102, 1097, 1080, 1081, 32, 1089, 1091, 1097,
      1077, 1089, 1090, 1074, 1077, 1085, 1085, 1099, 1077, 32, 1092, 1072, 1082, 1090,
      1099, 32, 1076, 1083, 1103, 32, 1091, 1089, 1090, 1072, 1085, 1086, 1074, 1083, 1077,
      1085, 1080, 1103, 32, 1080, 1089, 1090, 1080, 1085, 1099, 46]"

definition key_facts_error_prefix :: str where  (* line 221, 39 code points *)
  "key_facts_error_prefix =
     [1054, 1096, 1080, 1073, 1082, 1072, 32, 1087, 1088, 1080, 32, 1080, 1079, 1074, 1083,
      1077, 1095, 1077, 1085, 1080, 1080, 32, 1082, 1083, 1102, 1095, 1077, 1074, 1099,
      1093, 32, 1092, 1072, 1082, 1090, 1086, 1074, 58, 32]"

definition contradictions_prompt_head :: str where  (* line 226, 158 code points *)
  "contradictions_prompt_head =
     [1057, 1088, 1072, 1074, 1085, 1080, 1090, 1077, 32, 1089, 1083, 1077, 1076, 1091,
      1102, 1097, 1080, 1077, 32, 1076, 1074, 1072, 32, 1087, 1086, 1082, 1072, 1079, 1072,
      1085, 1080, 1103, 32, 1080, 32, 1086, 1087, 1088, 1077, 1076, 1077, 1083, 1080, 1090,
      1077, 32, 1087, 1088, 1086, 1090, 1080, 1074, 1086, 1088, 1077, 1095, 1080, 1103, 32,
      1080, 1083, 1080, 32, 1088, 1072, 1089, 1093, 1086, 1078, 1076, 1077, 1085, 1080,
      1103, 32, 1084, 1077, 1078, 1076, 1091, 32, 1085, 1080, 1084, 1080, 44, 32, 1082,
      1086, 1090, 1086, 1088, 1099, 1077, 32, 1084, 1086, 1075, 1091, 1090, 32, 1087, 1086,
      1074, 1083, 1080, 1103, 1090, 1100, 32, 1085, 1072, 32, 1076, 1086, 1089, 1090, 1086,
      1074, 1077, 1088, 1085, 1086, 1089, 1090, 1100, 32, 1087, 1086, 1082, 1072, 1079,
      1072, 1085, 1080, 1081, 58, 10, 10, 1055, 1086, 1082, 1072, 1079, 1072, 1085, 1080,
      1103, 32, 1083, 1080, 1094, 1072, 32, 8470, 49, 58, 10]"

definition contradictions_prompt_mid :: str where  (* line 227, 21 code points *)
  "contradictions_prompt_mid =
     [10, 10, 1055, 1086, 1082, 1072, 1079, 1072, 1085, 1080, 1103, 32, 1083, 1080, 1094,
      1072, 32, 8470, 50, 58, 10]"

definition contradictions_role :: str where  (* line 234, 68 code points *)
  "contradictions_role =
     [1042, 1099, 32, 1089, 1083, 1077, 1076, 1086, 1074, 1072, 1090, 1077, 1083, 1100, 44,
      32, 1089, 1086, 1087, 1086, 1089, 1090, 1072, 1074, 1083, 1103, 1102, 1097, 1080,
      1081, 32, 1087, 1086, 1082, 1072, 1079, 1072, 1085, 1080, 1103, 32, 1076, 1083, 1103,
      32, 1074, 1099, 1103, 1074, 1083, 1077, 1085, 1080, 1103, 32, 1087, 1088, 1086, 1090,
      1080, 1074, 1086, 1088, 1077, 1095, 1080, 1081, 46]"

definition contradictions_error_prefix :: str where  (* line 242, 34 code points *)
  "contradictions_error_prefix =
     [1054, 1096, 1080, 1073, 1082, 1072, 32, 1087, 1088, 1080, 32, 1087, 1088, 1086, 1074,
      1077, 1088, 1082, 1077, 32, 1087, 1088, 1086, 1090, 1080, 1074, 1086, 1088, 1077,
      1095, 1080, 1081, 58, 32]"

definition questions_prompt_head :: str where  (* line 247, 131 code points *)
  "questions_prompt_head =
     [1053, 1072, 32, 1086, 1089, 1085, 1086, 1074, 1077, 32, 1089, 1083, 1077, 1076, 1091,
      1102, 1097, 1080, 1093, 32, 1087, 1088, 1086, 1090, 1080, 1074, 1086, 1088, 1077,
      1095, 1080, 1081, 44, 32, 1074, 1099, 1103, 1074, 1083, 1077, 1085, 1085, 1099, 1093,
      32, 1074, 32, 1087, 1086, 1082, 1072, 1079, 1072, 1085, 1080, 1103, 1093, 44, 32,
      1089, 1092, 1086, 1088, 1084, 1091, 1083, 1080, 1088, 1091, 1081, 1090, 1077, 32,
      1074, 1086, 1087, 1088, 1086, 1089, 1099, 32, 1076, 1083, 1103, 32, 1091, 1090, 1086,
      1095, 1085, 1077, 1085, 1080, 1103, 32, 1080, 32, 1087, 1088, 1086, 1074, 1077, 1088,
      1082, 1080, 32, 1076, 1086, 1089, 1090, 1086, 1074, 1077, 1088, 1085, 1086, 1089,
      1090, 1080, 32, 1089, 1074, 1077, 1076, 1077, 1085, 1080, 1081, 58, 10, 10]"

definition questions_role :: str where  (* line 254, 60 code points *)
  "questions_role =
     [1042, 1099, 32, 1089, 1083, 1077, 1076, 1086, 1074, 1072, 1090, 1077, 1083, 1100, 44,
      32, 1092, 1086, 1088, 1084, 1080, 1088, 1091, 1102, 1097, 1080, 1081, 32, 1074, 1086,
      1087, 1088, 1086, 1089, 1099, 32, 1076, 1083, 1103, 32, 1091, 1090, 1086, 1095, 1085,
      1077, 1085, 1080, 1103, 32, 1087, 1086, 1082, 1072, 1079, 1072, 1085, 1080, 1081, 46]"

definition questions_error_prefix :: str where  (* line 262, 34 code points *)
  "questions_error_prefix =
     [1054, 1096, 1080, 1073, 1082, 1072, 32, 1087, 1088, 1080, 32, 1092, 1086, 1088, 1084,
      1080, 1088, 1086, 1074, 1072, 1085, 1080, 1080, 32, 1074, 1086, 1087, 1088, 1086,
      1089, 1086, 1074, 58, 32]"

definition ffmpeg_missing_message :: str where  (* line 271, 71 code points *)
  "ffmpeg_missing_message =
     [70, 70, 109, 112, 101, 103, 32, 1085, 1077, 32, 1091, 1089, 1090, 1072, 1085, 1086,
      1074, 1083, 1077, 1085, 46, 32, 1055, 1086, 1078, 1072, 1083, 1091, 1081, 1089, 1090,
      1072, 44, 32, 1091, 1089, 1090, 1072, 1085, 1086, 1074, 1080, 1090, 1077, 32, 70, 70,
      109, 112, 101, 103, 32, 1076, 1083, 1103, 32, 1088, 1072, 1073, 1086, 1090, 1099, 32,
      1089, 32, 1074, 1080, 1076, 1077, 1086, 46]"

definition api_key_message :: str where  (* line 284, 61 code points *)
  "api_key_message =
     [9888, 65039, 32, 1042, 1074, 1077, 1076, 1080, 1090, 1077, 32, 65, 80, 73, 32, 1082,
      1083, 1102, 1095, 32, 79, 112, 101, 110, 65, 73, 32, 1074, 32, 1073, 1086, 1082, 1086,
      1074, 1086, 1081, 32, 1087, 1072, 1085, 1077, 1083, 1080, 32, 1076, 1083, 1103, 32,
      1085, 1072, 1095, 1072, 1083, 1072, 32, 1088, 1072, 1073, 1086, 1090, 1099]"

definition duration_prefix :: str where  (* line 336, 20 code points *)
  "duration_prefix =
     [1044, 1083, 1080, 1090, 1077, 1083, 1100, 1085, 1086, 1089, 1090, 1100, 32, 1072,
      1091, 1076, 1080, 1086, 58, 32]"

definition duration_suffix :: str where  (* line 336, 5 code points *)
  "duration_suffix =
     [32, 1089, 1077, 1082, 46]"

definition party1_error_prefix :: str where  (* line 346, 40 code points *)
  "party1_error_prefix =
     [1054, 1096, 1080, 1073, 1082, 1072, 32, 1087, 1088, 1080, 32, 1086, 1073, 1088, 1072,
      1073, 1086, 1090, 1082, 1077, 32, 1084, 1072, 1090, 1077, 1088, 1080, 1072, 1083,
      1072, 32, 1083, 1080, 1094, 1072, 32, 8470, 49, 58, 32]"

definition party2_error_prefix :: str where  (* line 366, 40 code points *)
  "party2_error_prefix =
     [1054, 1096, 1080, 1073, 1082, 1072, 32, 1087, 1088, 1080, 32, 1086, 1073, 1088, 1072,
      1073, 1086, 1090, 1082, 1077, 32, 1084, 1072, 1090, 1077, 1088, 1080, 1072, 1083,
      1072, 32, 1083, 1080, 1094, 1072, 32, 8470, 50, 58, 32]"

definition party1_missing_warning :: str where  (* line 348, 33 code points *)
  "party1_missing_warning =
     [1052, 1072, 1090, 1077, 1088, 1080, 1072, 1083, 32, 1076, 1083, 1103, 32, 1083, 1080,
      1094, 1072, 32, 8470, 49, 32, 1085, 1077, 32, 1079, 1072, 1075, 1088, 1091, 1078,
      1077, 1085, 46]"

definition party2_missing_warning :: str where  (* line 368, 33 code points *)
  "party2_missing_warning =
     [1052, 1072, 1090, 1077, 1088, 1080, 1072, 1083, 32, 1076, 1083, 1103, 32, 1083, 1080,
      1094, 1072, 32, 8470, 50, 32, 1085, 1077, 32, 1079, 1072, 1075, 1088, 1091, 1078,
      1077, 1085, 46]"

section \<open>The case number\<close>

text \<open>
  The fields of \<open>datetime.now()\<close>. \<open>datetime_ok\<close> is the range the \<open>datetime\<close> type
  guarantees, with the year at four digits, where every platform's \<open>%Y\<close> agrees.
\<close>

record datetime =
  year :: nat
  month :: nat
  day :: nat
  hour :: nat
  minute :: nat
  second :: nat

definition datetime_ok :: "datetime \<Rightarrow> bool" where
  "datetime_ok d \<longleftrightarrow>
     1000 \<le> year d \<and> year d \<le> 9999 \<and> 1 \<le> month d \<and> month d \<le> 12 \<and>
     1 \<le> day d \<and> day d \<le> 31 \<and> hour d < 24 \<and> minute d < 60 \<and> second d < 60"

text \<open>A number as decimal digits, zero-padded to the width \<open>w\<close> (as \<open>%m\<close>, \<open>%d\<close>, \<open>%H\<close>, \<open>%M\<close>, \<open>%S\<close> do to 2).\<close>

definition zero_pad :: "nat \<Rightarrow> nat \<Rightarrow> str" where
  "zero_pad w n = replicate (w - length (str_of_nat n)) 48 @ str_of_nat n"

definition strftime_Ymd :: "datetime \<Rightarrow> str" where
  "strftime_Ymd d = zero_pad 4 (year d) @ zero_pad 2 (month d) @ zero_pad 2 (day d)"

definition strftime_HMS :: "datetime \<Rightarrow> str" where
  "strftime_HMS d = zero_pad 2 (hour d) @ zero_pad 2 (minute d) @ zero_pad 2 (second d)"

text \<open>
  Line 104: the f-string starts with the two code points U+041C (CYRILLIC CAPITAL LETTER EM)
  and U+002D; the Latin capital M is U+004D.
\<close>

definition generate_case_number :: "datetime \<Rightarrow> str" where
  "generate_case_number now = [1052, 45] @ strftime_Ymd now @ [45] @ strftime_HMS now"

text \<open>Reading a string of decimal digits back as a number.\<close>

definition isdigit :: "nat \<Rightarrow> bool" where
  "isdigit c \<longleftrightarrow> 48 \<le> c \<and> c \<le> 57"

definition nat_of_str :: "str \<Rightarrow> nat" where
  "nat_of_str s = foldl (\<lambda>a c. 10 * a + (c - 48)) 0 s"

section \<open>The world outside the program\<close>

text \<open>
  The file system maps a path to the content of the file there. The interface log keeps
  what \<open>st.error\<close>, \<open>st.warning\<close> and \<open>st.write\<close> showed, oldest first; an error
  message built as \<open>prefix + str(e)\<close> is kept as the prefix and the exception. The call
  log keeps every call to an external collaborator. Layout widgets (headings, spinners,
  text areas, download buttons) are not modelled.
\<close>

datatype ui_event = StError str "exn option" | StWarning str | StWrite str

record chat_request =
  model :: str
  messages :: "(str \<times> str) list"
  temperature :: rat

datatype call =
    Subprocess "str list"
  | FromMp3 str
  | TranscriptionsCreate str bytes str
  | ChatCompletionsCreate chat_request

record world =
  files :: "str \<rightharpoonup> bytes"
  ui :: "ui_event list"
  calls :: "call list"
  tmp_count :: nat

definition st_error :: "str \<Rightarrow> exn option \<Rightarrow> world \<Rightarrow> world" where
  "st_error msg e w = w\<lparr>ui := ui w @ [StError msg e]\<rparr>"

definition st_warning :: "str \<Rightarrow> world \<Rightarrow> world" where
  "st_warning msg w = w\<lparr>ui := ui w @ [StWarning msg]\<rparr>"

definition st_write :: "str \<Rightarrow> world \<Rightarrow> world" where
  "st_write msg w = w\<lparr>ui := ui w @ [StWrite msg]\<rparr>"

definition log_call :: "call \<Rightarrow> world \<Rightarrow> world" where
  "log_call c w = w\<lparr>calls := calls w @ [c]\<rparr>"

definition os_path_exists :: "world \<Rightarrow> str \<Rightarrow> bool" where
  "os_path_exists w p \<longleftrightarrow> files w p \<noteq> None"

definition os_remove :: "str \<Rightarrow> world \<Rightarrow> world" where
  "os_remove p w = w\<lparr>files := (files w)(p := None)\<rparr>"

text \<open>
  What the external collaborators answer. A process exits with a status, or cannot be
  started: because the executable is missing, or for another reason (a file that is not
  executable, say), reported with its message. The conversion run of ffmpeg
  is given the content of its input file: it writes the output file and exits with
  status 0, or exits with another status, having left a partial output file or none, or
  is missing. The speech and text services answer a request or raise. Every answer is a
  function of the request: within a run the same request gets the same answer.
\<close>

datatype client = OpenAI str

datatype proc = Exited nat | NotFound | StartFailed str

datatype conversion = Converted bytes | ConversionFailed nat "bytes option" | FfmpegMissing

record env =
  gettempdir :: str
  random_name :: "nat \<Rightarrow> str"
  ffmpeg_version :: proc
  ffmpeg_convert :: "bytes \<Rightarrow> conversion"
  decode_mp3 :: "bytes \<Rightarrow> exn + nat"
  speech_to_text :: "client \<Rightarrow> bytes \<Rightarrow> str \<Rightarrow> exn + str"
  text_generation :: "client \<Rightarrow> chat_request \<Rightarrow> exn + str"
  secrets_openai_api_key :: "exn + str"
  datetime_now :: datetime

section \<open>Paths\<close>

text \<open>
  \<open>str.rfind\<close> of one code point: the index of its last occurrence, or \<open>-1\<close>.
  \<open>posixpath.join\<close> of two components and \<open>posixpath.splitext\<close> follow the library:
  the extension starts at the last dot of the last path component, unless only dots
  precede it there.
\<close>

fun rfind_from :: "nat \<Rightarrow> nat \<Rightarrow> str \<Rightarrow> int \<Rightarrow> int" where
  "rfind_from c i [] found = found"
| "rfind_from c i (x # xs) found = rfind_from c (Suc i) xs (if x = c then int i else found)"

definition rfind :: "str \<Rightarrow> nat \<Rightarrow> int" where
  "rfind p c = rfind_from c 0 p (- 1)"

definition os_path_join :: "str \<Rightarrow> str \<Rightarrow> str" where
  "os_path_join a b =
     (if take 1 b = [47] then b
      else if a = [] \<or> last a = 47 then a @ b
      else a @ [47] @ b)"

function splitext_scan :: "str \<Rightarrow> nat \<Rightarrow> nat \<Rightarrow> str \<times> str" where
  "splitext_scan p filenameIndex dotIndex =
     (if filenameIndex < dotIndex then
        (if take 1 (drop filenameIndex p) \<noteq> [46] then (take dotIndex p, drop dotIndex p)
         else splitext_scan p (filenameIndex + 1) dotIndex)
      else (p, []))"
  by pat_completeness auto
termination
  by (relation "measure (\<lambda>(p, filenameIndex, dotIndex). dotIndex - filenameIndex)") auto

declare splitext_scan.simps [simp del]

definition os_path_splitext :: "str \<Rightarrow> str \<times> str" where
  "os_path_splitext p =
     (let sepIndex = rfind p 47; dotIndex = rfind p 46
      in if dotIndex > sepIndex then splitext_scan p (nat (sepIndex + 1)) (nat dotIndex)
         else (p, []))"

section \<open>MediaNormalizer: \<open>check_ffmpeg\<close> and \<open>extract_audio\<close>\<close>

record uploaded_file =
  upload_name :: str
  upload_data :: bytes

text \<open>
  \<open>subprocess.run(..., check=True)\<close>: a missing executable raises
  \<open>FileNotFoundError\<close>, any other failure to start the process raises an exception of
  another class (\<open>PermissionError\<close> for a file that is not executable), and a non-zero
  exit status raises \<open>CalledProcessError\<close>.
\<close>

definition check_status :: "proc \<Rightarrow> exn + unit" where
  "check_status r =
     (case r of
        NotFound \<Rightarrow> Inl FileNotFoundError
      | StartFailed msg \<Rightarrow> Inl (PyException msg)
      | Exited n \<Rightarrow> if n = 0 then Inr () else Inl (CalledProcessError n))"

definition probe_argv :: "str list" where
  "probe_argv = [ascii ''ffmpeg'', ascii ''-version'']"

text \<open>Lines 107-112. The \<open>except\<close> clause names two classes; any other exception passes through.\<close>

definition check_ffmpeg :: "env \<Rightarrow> world \<Rightarrow> (exn + bool) \<times> world" where
  "check_ffmpeg env w =
     (let w1 = log_call (Subprocess probe_argv) w
      in case check_status (ffmpeg_version env) of
           Inr _ \<Rightarrow> (Inr True, w1)
         | Inl (CalledProcessError n) \<Rightarrow> (Inr False, w1)
         | Inl FileNotFoundError \<Rightarrow> (Inr False, w1)
         | Inl e \<Rightarrow> (Inl e, w1))"

text \<open>
  Lines 117-119: \<open>NamedTemporaryFile(delete=False, suffix='.mp4')\<close> names its file
  \<open>join(gettempdir(), 'tmp' + random + suffix)\<close>; the upload's bytes are written there
  and the file stays after the \<open>with\<close> block. Creating and writing the file is taken
  to succeed.
\<close>

definition temp_name :: "env \<Rightarrow> str \<Rightarrow> world \<Rightarrow> str" where
  "temp_name env suffix w =
     os_path_join (gettempdir env) (ascii ''tmp'' @ random_name env (tmp_count w) @ suffix)"

definition write_upload :: "env \<Rightarrow> uploaded_file \<Rightarrow> world \<Rightarrow> str \<times> world" where
  "write_upload env uploaded_file w =
     (let video_path = temp_name env (ascii ''.mp4'') w
      in (video_path,
          w\<lparr>files := (files w)(video_path \<mapsto> upload_data uploaded_file),
            tmp_count := tmp_count w + 1\<rparr>))"

definition convert_argv :: "str \<Rightarrow> str \<Rightarrow> str list" where
  "convert_argv video_path audio_path =
     [ascii ''ffmpeg'', ascii ''-i'', video_path, ascii ''-q:a'', ascii ''0'',
      ascii ''-map'', ascii ''a'', audio_path]"

text \<open>
  Lines 124-130: the conversion run. ffmpeg reads the input file (a missing input makes
  it exit with status 1) and leaves at the output path what the outcome says.
\<close>

definition run_ffmpeg :: "env \<Rightarrow> str \<Rightarrow> str \<Rightarrow> world \<Rightarrow> (exn + unit) \<times> world" where
  "run_ffmpeg env video_path audio_path w =
     (let w1 = log_call (Subprocess (convert_argv video_path audio_path)) w
      in case files w video_path of
           None \<Rightarrow> (Inl (CalledProcessError 1), w1)
         | Some input \<Rightarrow>
             (case ffmpeg_convert env input of
                Converted out \<Rightarrow> (Inr (), w1\<lparr>files := (files w1)(audio_path \<mapsto> out)\<rparr>)
              | ConversionFailed n None \<Rightarrow> (Inl (CalledProcessError n), w1)
              | ConversionFailed n (Some out) \<Rightarrow>
                  (Inl (CalledProcessError n), w1\<lparr>files := (files w1)(audio_path \<mapsto> out)\<rparr>)
              | FfmpegMissing \<Rightarrow> (Inl FileNotFoundError, w1)))"

text \<open>Line 132: \<open>AudioSegment.from_mp3\<close> opens the file and decodes it; \<open>len\<close> of the result is in milliseconds.\<close>

definition from_mp3 :: "env \<Rightarrow> str \<Rightarrow> world \<Rightarrow> (exn + nat) \<times> world" where
  "from_mp3 env audio_path w =
     (let w1 = log_call (FromMp3 audio_path) w
      in case files w audio_path of
           None \<Rightarrow> (Inl FileNotFoundError, w1)
         | Some content \<Rightarrow> (decode_mp3 env content, w1))"

text \<open>Lines 115-141. The duration is \<open>len(audio) / 1000\<close>, kept as a rational number.\<close>

definition extract_audio :: "env \<Rightarrow> uploaded_file \<Rightarrow> world \<Rightarrow> (exn + str \<times> rat) \<times> world" where
  "extract_audio env uploaded_file w0 =
     (let (video_path, w1) = write_upload env uploaded_file w0;
          audio_path = fst (os_path_splitext video_path) @ ascii ''.mp3'';
          (r, w2) =
            (case run_ffmpeg env video_path audio_path w1 of
               (Inl e, w) \<Rightarrow> (Inl e, w)
             | (Inr _, w) \<Rightarrow>
                 (case from_mp3 env audio_path w of
                    (Inl e, w') \<Rightarrow> (Inl e, w')
                  | (Inr n, w') \<Rightarrow> (Inr (audio_path, of_nat n / 1000), w')));
          w3 = (case r of Inl e \<Rightarrow> st_error extract_error_prefix (Some e) w2 | Inr _ \<Rightarrow> w2);
          w4 = (if os_path_exists w3 video_path then os_remove video_path w3 else w3)
      in (r, w4))"

section \<open>TranscriptionService: \<open>transcribe_audio\<close>\<close>

text \<open>Lines 144-158. \<open>open\<close> raises when the file is missing; the \<open>finally\<close> block removes it.\<close>

definition transcribe_audio ::
  "env \<Rightarrow> client \<Rightarrow> str \<Rightarrow> str \<Rightarrow> world \<Rightarrow> (exn + str) \<times> world" where
  "transcribe_audio env client audio_file language w0 =
     (let (r, w1) =
            (case files w0 audio_file of
               None \<Rightarrow> (Inl FileNotFoundError, w0)
             | Some content \<Rightarrow>
                 (speech_to_text env client content language,
                  log_call (TranscriptionsCreate (ascii ''whisper-1'') content language) w0));
          w2 = (case r of Inl e \<Rightarrow> st_error transcribe_error_prefix (Some e) w1 | Inr _ \<Rightarrow> w1);
          w3 = (if os_path_exists w2 audio_file then os_remove audio_file w2 else w2)
      in (r, w3))"

section \<open>AnalysisEngine and ComparisonEngine\<close>

text \<open>
  A request to \<open>client.chat.completions.create\<close> has the developer message, the prompt
  as the user message and the temperature. Whatever goes wrong between the call and the
  text of the first choice is the exception the collaborator answers with.
\<close>

definition request :: "str \<Rightarrow> str \<Rightarrow> rat \<Rightarrow> chat_request" where
  "request role prompt t =
     \<lparr>model = ascii ''gpt-4o-mini'',
      messages = [(ascii ''developer'', role), (ascii ''user'', prompt)],
      temperature = t\<rparr>"

definition chat_completions_create ::
  "env \<Rightarrow> client \<Rightarrow> chat_request \<Rightarrow> world \<Rightarrow> (exn + str) \<times> world" where
  "chat_completions_create env client req w =
     (text_generation env client req, log_call (ChatCompletionsCreate req) w)"

text \<open>Lines 163-182.\<close>

definition summarize_prompt :: "str \<Rightarrow> str \<Rightarrow> str" where
  "summarize_prompt text language =
     summarize_prompt_head @ language @ [58, 10, 10] @ text @ summarize_prompt_tail"

definition summarize_text ::
  "env \<Rightarrow> client \<Rightarrow> str \<Rightarrow> str \<Rightarrow> world \<Rightarrow> (exn + str) \<times> world" where
  "summarize_text env client text language w =
     (case chat_completions_create env client
             (request summarize_role (summarize_prompt text language) (1 / 2)) w of
        (Inr content, w1) \<Rightarrow> (Inr (strip content), w1)
      | (Inl e, w1) \<Rightarrow> (Inr [], st_error summarize_error_prefix (Some e) w1))"

text \<open>Lines 184-202.\<close>

definition sequence_prompt :: "str \<Rightarrow> str" where
  "sequence_prompt text = sequence_prompt_head @ text"

definition check_sequence :: "env \<Rightarrow> client \<Rightarrow> str \<Rightarrow> world \<Rightarrow> (exn + str) \<times> world" where
  "check_sequence env client text w =
     (case chat_completions_create env client
             (request sequence_role (sequence_prompt text) (1 / 2)) w of
        (Inr content, w1) \<Rightarrow> (Inr (strip content), w1)
      | (Inl e, w1) \<Rightarrow> (Inr [], st_error sequence_error_prefix (Some e) w1))"

text \<open>Lines 204-222.\<close>

definition key_facts_prompt :: "str \<Rightarrow> str" where
  "key_facts_prompt text = key_facts_prompt_head @ text"

definition extract_key_facts :: "env \<Rightarrow> client \<Rightarrow> str \<Rightarrow> world \<Rightarrow> (exn + str) \<times> world" where
  "extract_key_facts env client text w =
     (case chat_completions_create env client
             (request key_facts_role (key_facts_prompt text) (1 / 2)) w of
        (Inr content, w1) \<Rightarrow> (Inr (strip content), w1)
      | (Inl e, w1) \<Rightarrow> (Inr [], st_error key_facts_error_prefix (Some e) w1))"

text \<open>Lines 224-243.\<close>

definition contradictions_prompt :: "str \<Rightarrow> str \<Rightarrow> str" where
  "contradictions_prompt text1 text2 =
     contradictions_prompt_head @ text1 @ contradictions_prompt_mid @ text2"

definition check_contradictions ::
  "env \<Rightarrow> client \<Rightarrow> str \<Rightarrow> str \<Rightarrow> world \<Rightarrow> (exn + str) \<times> world" where
  "check_contradictions env client text1 text2 w =
     (case chat_completions_create env client
             (request contradictions_role (contradictions_prompt text1 text2) (1 / 2)) w of
        (Inr content, w1) \<Rightarrow> (Inr (strip content), w1)
      | (Inl e, w1) \<Rightarrow> (Inr [], st_error contradictions_error_prefix (Some e) w1))"

text \<open>Lines 245-263.\<close>

definition questions_prompt :: "str \<Rightarrow> str" where
  "questions_prompt contradictions = questions_prompt_head @ contradictions"

definition formulate_questions :: "env \<Rightarrow> client \<Rightarrow> str \<Rightarrow> world \<Rightarrow> (exn + str) \<times> world" where
  "formulate_questions env client contradictions w =
     (case chat_completions_create env client
             (request questions_role (questions_prompt contradictions) (7 / 10)) w of
        (Inr content, w1) \<Rightarrow> (Inr (strip content), w1)
      | (Inl e, w1) \<Rightarrow> (Inr [], st_error questions_error_prefix (Some e) w1))"

section \<open>CaseOrchestrator: \<open>main\<close>\<close>

text \<open>Lines 93-99.\<close>

definition init_openai :: "env \<Rightarrow> world \<Rightarrow> client option \<times> world" where
  "init_openai env w =
     (case secrets_openai_api_key env of
        Inr key \<Rightarrow> (Some (OpenAI key), w)
      | Inl e \<Rightarrow> (None, st_error init_error_prefix (Some e) w))"

text \<open>
  The local variables of one party's branch, which start as empty strings (lines 325-328)
  and are assigned as the stages finish.
\<close>

record party_result =
  transcription :: str
  summary :: str
  sequence_check :: str
  key_facts :: str

definition no_result :: party_result where
  "no_result = \<lparr>transcription = [], summary = [], sequence_check = [], key_facts = []\<rparr>"

datatype party = Party1 | Party2

fun party_error_prefix :: "party \<Rightarrow> str" where
  "party_error_prefix Party1 = party1_error_prefix"
| "party_error_prefix Party2 = party2_error_prefix"

fun party_missing_warning :: "party \<Rightarrow> str" where
  "party_missing_warning Party1 = party1_missing_warning"
| "party_missing_warning Party2 = party2_missing_warning"

text \<open>
  Lines 333-346 for party 1 and 353-366 for party 2: the two blocks differ in the party's
  number only. The first exception of a stage ends the \<open>try\<close> block, is shown with the
  party's prefix, and leaves the variables assigned so far.
\<close>

definition process_party ::
  "env \<Rightarrow> client \<Rightarrow> party \<Rightarrow> uploaded_file \<Rightarrow> str \<Rightarrow> world \<Rightarrow> party_result \<times> world" where
  "process_party env client p uploaded_file language w0 =
     (case extract_audio env uploaded_file w0 of
        (Inl e, w1) \<Rightarrow> (no_result, st_error (party_error_prefix p) (Some e) w1)
      | (Inr (audio_path, duration), w1) \<Rightarrow>
     (case transcribe_audio env client audio_path language
             (st_write (duration_prefix @ str_of_nat (nat \<lfloor>duration\<rfloor>) @ duration_suffix) w1) of
        (Inl e, w2) \<Rightarrow> (no_result, st_error (party_error_prefix p) (Some e) w2)
      | (Inr t, w2) \<Rightarrow>
     (case summarize_text env client t language w2 of
        (Inl e, w3) \<Rightarrow>
          (no_result\<lparr>transcription := t\<rparr>, st_error (party_error_prefix p) (Some e) w3)
      | (Inr s, w3) \<Rightarrow>
     (case check_sequence env client t w3 of
        (Inl e, w4) \<Rightarrow>
          (no_result\<lparr>transcription := t, summary := s\<rparr>,
           st_error (party_error_prefix p) (Some e) w4)
      | (Inr c, w4) \<Rightarrow>
     (case extract_key_facts env client t w4 of
        (Inl e, w5) \<Rightarrow>
          (no_result\<lparr>transcription := t, summary := s, sequence_check := c\<rparr>,
           st_error (party_error_prefix p) (Some e) w5)
      | (Inr k, w5) \<Rightarrow>
          (\<lparr>transcription = t, summary = s, sequence_check = c, key_facts = k\<rparr>, w5))))))"

text \<open>Lines 331-332 and 347-348: a party without an upload gets a warning and keeps the empty strings.\<close>

definition party_branch ::
  "env \<Rightarrow> client \<Rightarrow> party \<Rightarrow> uploaded_file option \<Rightarrow> str \<Rightarrow> world \<Rightarrow> party_result \<times> world" where
  "party_branch env client p upload language w =
     (case upload of
        Some uploaded_file \<Rightarrow> process_party env client p uploaded_file language w
      | None \<Rightarrow> (no_result, st_warning (party_missing_warning p) w))"

text \<open>
  What the button's handler (lines 324-406) has computed when it ends: both parties'
  variables, and \<open>contradictions\<close> and \<open>questions\<close>, which exist only when the
  comparison ran.
\<close>

record results =
  party1 :: party_result
  party2 :: party_result
  comparison :: "(str \<times> str) option"

definition process ::
  "env \<Rightarrow> client \<Rightarrow> uploaded_file option \<Rightarrow> uploaded_file option \<Rightarrow> str \<Rightarrow> world
     \<Rightarrow> (exn + results) \<times> world" where
  "process env client uploaded_file_1 uploaded_file_2 language w0 =
     (let (r1, w1) = party_branch env client Party1 uploaded_file_1 language w0;
          (r2, w2) = party_branch env client Party2 uploaded_file_2 language w1
      in if transcription r1 \<noteq> [] \<and> transcription r2 \<noteq> [] then
           (case check_contradictions env client (transcription r1) (transcription r2) w2 of
              (Inl e, w3) \<Rightarrow> (Inl e, w3)
            | (Inr contradictions, w3) \<Rightarrow>
                (case formulate_questions env client contradictions w3 of
                   (Inl e, w4) \<Rightarrow> (Inl e, w4)
                 | (Inr questions, w4) \<Rightarrow>
                     (Inr \<lparr>party1 = r1, party2 = r2,
                           comparison = Some (contradictions, questions)\<rparr>, w4)))
         else (Inr \<lparr>party1 = r1, party2 = r2, comparison = None\<rparr>, w2))"

text \<open>
  Lines 266-406. The widgets' values are the inputs of a run. \<open>st.stop()\<close> ends the run
  at once; a missing client ends it with \<open>return\<close>; an exception that no handler
  catches ends it as \<open>Raised\<close>.
\<close>

record inputs =
  uploaded_file_1 :: "uploaded_file option"
  uploaded_file_2 :: "uploaded_file option"
  language :: str
  button :: bool

datatype outcome =
    Stopped
  | NoClient
  | Idle str
  | Processed str results
  | Raised exn

definition main :: "env \<Rightarrow> inputs \<Rightarrow> world \<Rightarrow> outcome \<times> world" where
  "main env inp w0 =
     (case check_ffmpeg env w0 of
        (Inl e, w1) \<Rightarrow> (Raised e, w1)
      | (Inr False, w1) \<Rightarrow> (Stopped, st_error ffmpeg_missing_message None w1)
      | (Inr True, w1) \<Rightarrow>
          (case init_openai env w1 of
             (None, w2) \<Rightarrow> (NoClient, st_error api_key_message None w2)
           | (Some client, w2) \<Rightarrow>
               (let case_number = generate_case_number (datetime_now env)
                in if button inp then
                     (case process env client (uploaded_file_1 inp) (uploaded_file_2 inp)
                             (language inp) w2 of
                        (Inl e, w3) \<Rightarrow> (Raised e, w3)
                      | (Inr b, w3) \<Rightarrow> (Processed case_number b, w3))
                   else (Idle case_number, w2))))"

section \<open>Observing a run\<close>

text \<open>
  The calls of the comparison step are the text-generation requests whose developer
  message is the one of \<open>check_contradictions\<close> or of \<open>formulate_questions\<close>.
\<close>

fun is_comparison_call :: "call \<Rightarrow> bool" where
  "is_comparison_call (ChatCompletionsCreate req) \<longleftrightarrow>
     (ascii ''developer'', contradictions_role) \<in> set (messages req) \<or>
     (ascii ''developer'', questions_role) \<in> set (messages req)"
| "is_comparison_call _ \<longleftrightarrow> False"

definition comparison_calls :: "world \<Rightarrow> call list" where
  "comparison_calls w = filter is_comparison_call (calls w)"

text \<open>
  \<open>new_calls w w'\<close> are the calls logged between the worlds \<open>w\<close> and \<open>w'\<close>; the step
  is \<open>quiet\<close> when \<open>w'\<close> continues the log of \<open>w\<close> with no call of the comparison step.
\<close>

definition new_calls :: "world \<Rightarrow> world \<Rightarrow> call list" where
  "new_calls w w' = drop (length (calls w)) (calls w')"

definition quiet :: "world \<Rightarrow> world \<Rightarrow> bool" where
  "quiet w w' \<longleftrightarrow>
     take (length (calls w)) (calls w') = calls w \<and>
     filter is_comparison_call (new_calls w w') = []"

text \<open>
  What a party's branch yields as a function of the upload and of the collaborators'
  answers alone; \<open>process_party\<close> is shown below to compute it from every world.
\<close>

definition generated :: "env \<Rightarrow> client \<Rightarrow> chat_request \<Rightarrow> str" where
  "generated env client req =
     (case text_generation env client req of Inr content \<Rightarrow> strip content | Inl e \<Rightarrow> [])"

definition party_outcome :: "env \<Rightarrow> client \<Rightarrow> uploaded_file \<Rightarrow> str \<Rightarrow> party_result" where
  "party_outcome env client uploaded_file lang =
     (case ffmpeg_convert env (upload_data uploaded_file) of
        Converted out \<Rightarrow>
          (case decode_mp3 env out of
             Inl e \<Rightarrow> no_result
           | Inr n \<Rightarrow>
               (case speech_to_text env client out lang of
                  Inl e \<Rightarrow> no_result
                | Inr t \<Rightarrow>
                    \<lparr>transcription = t,
                     summary = generated env client
                       (request summarize_role (summarize_prompt t lang) (1 / 2)),
                     sequence_check = generated env client
                       (request sequence_role (sequence_prompt t) (1 / 2)),
                     key_facts = generated env client
                       (request key_facts_role (key_facts_prompt t) (1 / 2))\<rparr>))
      | ConversionFailed n out \<Rightarrow> no_result
      | FfmpegMissing \<Rightarrow> no_result)"

section \<open>Example runs\<close>

text \<open>
  A session on 7 March 2024 at 09:05:00 with an empty temporary directory. ffmpeg
  converts every upload but \<open>broken\<close>; the decoder rejects the audio made from
  \<open>noise\<close>; the services answer. In \<open>offline_env\<close> text generation is down.
\<close>

definition example_now :: datetime where
  "example_now = \<lparr>year = 2024, month = 3, day = 7, hour = 9, minute = 5, second = 0\<rparr>"

definition example_env :: env where
  "example_env =
     \<lparr>gettempdir = ascii ''/tmp'',
      random_name = (\<lambda>n. if n = 0 then ascii ''k3x9_q0a'' else ascii ''w7m2bz5e''),
      ffmpeg_version = Exited 0,
      ffmpeg_convert = (\<lambda>b. if b = ''broken'' then ConversionFailed 1 None else Converted b),
      decode_mp3 = (\<lambda>b. if b = ''noise'' then Inl (PyException (ascii ''decoding failed''))
                        else Inr 5200),
      speech_to_text = (\<lambda>c b l. Inr (ascii ''I was at home'')),
      text_generation = (\<lambda>c r. Inr (ascii '' noted '')),
      secrets_openai_api_key = Inr (ascii ''sk-test''),
      datetime_now = example_now\<rparr>"

definition offline_env :: env where
  "offline_env = example_env\<lparr>text_generation := (\<lambda>c r. Inl (PyException (ascii ''timeout'')))\<rparr>"

text \<open>In \<open>locked_env\<close> the ffmpeg file is there but may not be executed.\<close>

definition locked_env :: env where
  "locked_env = example_env\<lparr>ffmpeg_version := StartFailed (ascii ''Permission denied'')\<rparr>"

definition empty_world :: world where
  "empty_world = \<lparr>files = Map.empty, ui = [], calls = [], tmp_count = 0\<rparr>"

definition upload :: "string \<Rightarrow> bytes \<Rightarrow> uploaded_file" where
  "upload n b = \<lparr>upload_name = ascii n, upload_data = b\<rparr>"

section \<open>The case number: format\<close>

lemma str_of_nat_digits: "\<forall>c \<in> set (str_of_nat n). isdigit c"
proof (induction n rule: str_of_nat.induct)
  case (1 n)
  show ?case
  proof (cases "n < 10")
    case True
    then show ?thesis by (subst str_of_nat.simps) (simp add: isdigit_def)
  next
    case False
    with 1 show ?thesis by (subst str_of_nat.simps) (simp add: isdigit_def)
  qed
qed

lemma nat_of_str_snoc: "nat_of_str (s @ [c]) = 10 * nat_of_str s + (c - 48)"
  by (simp add: nat_of_str_def)

lemma nat_of_str_append:
  "nat_of_str (xs @ ys) = nat_of_str xs * 10 ^ length ys + nat_of_str ys"
proof (induction ys rule: rev_induct)
  case Nil
  show ?case by (simp add: nat_of_str_def)
next
  case (snoc y ys)
  have "nat_of_str (xs @ ys @ [y]) = 10 * nat_of_str (xs @ ys) + (y - 48)"
    using nat_of_str_snoc [of "xs @ ys" y] by simp
  then show ?case by (simp add: snoc nat_of_str_snoc algebra_simps)
qed

lemma nat_of_str_of_nat: "nat_of_str (str_of_nat n) = n"
proof (induction n rule: str_of_nat.induct)
  case (1 n)
  show ?case
  proof (cases "n < 10")
    case True
    then show ?thesis by (subst str_of_nat.simps) (simp add: nat_of_str_def)
  next
    case False
    with 1 show ?thesis by (subst str_of_nat.simps) (simp add: nat_of_str_snoc)
  qed
qed

lemma nat_of_str_zeros: "nat_of_str (replicate k 48) = 0"
  by (induction k) (simp_all add: nat_of_str_def)

lemma nat_of_str_zero_pad: "nat_of_str (zero_pad w n) = n"
  by (simp add: zero_pad_def nat_of_str_append nat_of_str_zeros nat_of_str_of_nat)

lemma zero_pad_digits: "\<forall>c \<in> set (zero_pad w n). isdigit c"
  using str_of_nat_digits [of n] by (auto simp: zero_pad_def isdigit_def)

lemma length_str_of_nat_1: "n < 10 \<Longrightarrow> length (str_of_nat n) = 1"
  by (subst str_of_nat.simps) simp

lemma length_str_of_nat_2: "n < 100 \<Longrightarrow> length (str_of_nat n) \<le> 2"
  by (subst str_of_nat.simps) (simp add: length_str_of_nat_1)

lemma length_str_of_nat_3: "n < 1000 \<Longrightarrow> length (str_of_nat n) \<le> 3"
  using length_str_of_nat_2 [of "n div 10"] by (subst str_of_nat.simps) simp

lemma length_str_of_nat_4: "n < 10000 \<Longrightarrow> length (str_of_nat n) \<le> 4"
  using length_str_of_nat_3 [of "n div 10"] by (subst str_of_nat.simps) simp

lemma length_zero_pad: "length (str_of_nat n) \<le> w \<Longrightarrow> length (zero_pad w n) = w"
  by (simp add: zero_pad_def)

lemma Ymd_props:
  assumes "datetime_ok d"
  shows "length (strftime_Ymd d) = 8"
    and "nat_of_str (strftime_Ymd d) = year d * 10000 + month d * 100 + day d"
proof -
  have y: "length (zero_pad 4 (year d)) = 4"
    using assms by (intro length_zero_pad length_str_of_nat_4) (simp add: datetime_ok_def)
  have m: "length (zero_pad 2 (month d)) = 2"
    using assms by (intro length_zero_pad length_str_of_nat_2) (simp add: datetime_ok_def)
  have a: "length (zero_pad 2 (day d)) = 2"
    using assms by (intro length_zero_pad length_str_of_nat_2) (simp add: datetime_ok_def)
  show "length (strftime_Ymd d) = 8"
    by (simp add: strftime_Ymd_def y m a)
  show "nat_of_str (strftime_Ymd d) = year d * 10000 + month d * 100 + day d"
    by (simp add: strftime_Ymd_def nat_of_str_append nat_of_str_zero_pad y m a)
qed

lemma HMS_props:
  assumes "datetime_ok d"
  shows "length (strftime_HMS d) = 6"
    and "nat_of_str (strftime_HMS d) = hour d * 10000 + minute d * 100 + second d"
proof -
  have h: "length (zero_pad 2 (hour d)) = 2"
    using assms by (intro length_zero_pad length_str_of_nat_2) (simp add: datetime_ok_def)
  have m: "length (zero_pad 2 (minute d)) = 2"
    using assms by (intro length_zero_pad length_str_of_nat_2) (simp add: datetime_ok_def)
  have s: "length (zero_pad 2 (second d)) = 2"
    using assms by (intro length_zero_pad length_str_of_nat_2) (simp add: datetime_ok_def)
  show "length (strftime_HMS d) = 6"
    by (simp add: strftime_HMS_def h m s)
  show "nat_of_str (strftime_HMS d) = hour d * 10000 + minute d * 100 + second d"
    by (simp add: strftime_HMS_def nat_of_str_append nat_of_str_zero_pad h m s)
qed

lemma strftime_digits: "\<forall>c \<in> set (strftime_Ymd d @ strftime_HMS d). isdigit c"
  using zero_pad_digits by (auto simp: strftime_Ymd_def strftime_HMS_def)

text \<open>
  C8, as the code has it: for every instant of a four-digit year, the case number is the
  Cyrillic capital letter Em (U+041C, not the Latin M the specification shows) and a
  hyphen, then the eight digits of the date, a hyphen, and the six digits of the time.
\<close>

theorem case_number_format:
  assumes "datetime_ok d"
  shows "\<exists>ds ts. generate_case_number d = [1052, 45] @ ds @ [45] @ ts \<and>
           length ds = 8 \<and> length ts = 6 \<and> (\<forall>c \<in> set (ds @ ts). isdigit c) \<and>
           nat_of_str ds = year d * 10000 + month d * 100 + day d \<and>
           nat_of_str ts = hour d * 10000 + minute d * 100 + second d"
proof (intro exI conjI)
  show "generate_case_number d = [1052, 45] @ strftime_Ymd d @ [45] @ strftime_HMS d"
    by (simp add: generate_case_number_def)
  show "length (strftime_Ymd d) = 8"
    by (rule Ymd_props(1) [OF assms])
  show "length (strftime_HMS d) = 6"
    by (rule HMS_props(1) [OF assms])
  show "\<forall>c \<in> set (strftime_Ymd d @ strftime_HMS d). isdigit c"
    by (rule strftime_digits)
  show "nat_of_str (strftime_Ymd d) = year d * 10000 + month d * 100 + day d"
    by (rule Ymd_props(2) [OF assms])
  show "nat_of_str (strftime_HMS d) = hour d * 10000 + minute d * 100 + second d"
    by (rule HMS_props(2) [OF assms])
qed

text \<open>The format at the example instant, 7 March 2024, 09:05:00.\<close>

theorem case_number_format_witness:
  "datetime_ok example_now \<and>
   (\<exists>ds ts. generate_case_number example_now = [1052, 45] @ ds @ [45] @ ts \<and>
      nat_of_str ds = 20240307 \<and> nat_of_str ts = 90500)"
proof -
  have ok: "datetime_ok example_now"
    by (simp add: datetime_ok_def example_now_def)
  from case_number_format [OF ok] show ?thesis
    using ok by (simp add: example_now_def) blast
qed

text \<open>
  C8 as stated fails: the first two code points of a case number are not the Latin
  letters \<open>M-\<close>.
\<close>

theorem case_number_latin_prefix_counterexample:
  "take 2 (generate_case_number example_now) \<noteq> ascii ''M-''"
  by (simp add: generate_case_number_def ascii_def)

section \<open>Cleanup, soft failure and the comparison guard\<close>

lemma files_st_error [simp]: "files (st_error m e w) = files w"
  by (simp add: st_error_def)

lemma files_st_write [simp]: "files (st_write m w) = files w"
  by (simp add: st_write_def)

lemma files_st_warning [simp]: "files (st_warning m w) = files w"
  by (simp add: st_warning_def)

lemma files_log_call [simp]: "files (log_call c w) = files w"
  by (simp add: log_call_def)

lemma removed_when_present:
  "files (if os_path_exists w p then os_remove p w else w) p = None"
  by (simp add: os_path_exists_def os_remove_def)


text \<open>
  C4: for every path and language, the audio file is gone when \<open>transcribe_audio\<close>
  returns or raises, whether the speech service answered or failed.
\<close>

theorem transcribe_audio_removes_audio:
  "files (snd (transcribe_audio env client audio_file lang w)) audio_file = None"
  by (simp add: transcribe_audio_def Let_def removed_when_present split: prod.splits)

lemma check_ffmpeg_result:
  "check_ffmpeg env w =
     (case ffmpeg_version env of
        Exited n \<Rightarrow> Inr (n = 0)
      | NotFound \<Rightarrow> Inr False
      | StartFailed msg \<Rightarrow> Inl (PyException msg),
      log_call (Subprocess probe_argv) w)"
  by (cases "ffmpeg_version env") (simp_all add: check_ffmpeg_def check_status_def Let_def)

lemma calls_st_error [simp]: "calls (st_error m e w) = calls w"
  by (simp add: st_error_def)

lemma calls_st_write [simp]: "calls (st_write m w) = calls w"
  by (simp add: st_write_def)

lemma calls_st_warning [simp]: "calls (st_warning m w) = calls w"
  by (simp add: st_warning_def)

lemma calls_log_call [simp]: "calls (log_call c w) = calls w @ [c]"
  by (simp add: log_call_def)

lemma quietI:
  "calls w' = calls w @ xs \<Longrightarrow> filter is_comparison_call xs = [] \<Longrightarrow> quiet w w'"
  by (simp add: quiet_def new_calls_def)

lemma quietD:
  assumes "quiet w w'"
  shows "\<exists>xs. calls w' = calls w @ xs \<and> filter is_comparison_call xs = []"
proof (intro exI conjI)
  show "calls w' = calls w @ new_calls w w'"
    using assms append_take_drop_id [of "length (calls w)" "calls w'"]
    by (simp add: quiet_def new_calls_def)
  show "filter is_comparison_call (new_calls w w') = []"
    using assms by (simp add: quiet_def)
qed

lemma quiet_refl [simp]: "quiet w w"
  by (rule quietI [of _ _ "[]"]) simp_all

lemma quiet_trans: "quiet w w1 \<Longrightarrow> quiet w1 w2 \<Longrightarrow> quiet w w2"
proof -
  assume "quiet w w1" "quiet w1 w2"
  then obtain xs ys where "calls w1 = calls w @ xs" "filter is_comparison_call xs = []"
    "calls w2 = calls w1 @ ys" "filter is_comparison_call ys = []"
    by (blast dest: quietD)
  then show "quiet w w2"
    by (intro quietI [of _ _ "xs @ ys"]) simp_all
qed

lemma quiet_calls_eq: "calls a = calls b \<Longrightarrow> quiet a w = quiet b w"
  by (simp add: quiet_def new_calls_def)

lemma quiet_calls_eq2: "calls a = calls b \<Longrightarrow> quiet w a = quiet w b"
  by (simp add: quiet_def new_calls_def)

lemma quiet_st_error [simp]: "quiet w (st_error m e w') = quiet w w'"
  "quiet (st_error m e w) w' = quiet w w'"
  by (simp_all add: quiet_def new_calls_def)

lemma quiet_st_write [simp]: "quiet w (st_write m w') = quiet w w'"
  "quiet (st_write m w) w' = quiet w w'"
  by (simp_all add: quiet_def new_calls_def)

lemma quiet_st_warning [simp]: "quiet w (st_warning m w') = quiet w w'"
  by (simp_all add: quiet_def new_calls_def)

lemma quiet_log_call: "\<not> is_comparison_call c \<Longrightarrow> quiet w w' \<Longrightarrow> quiet w (log_call c w')"
  by (rule quiet_trans [of w w']) (auto intro: quietI [of _ _ "[c]"])

lemma calls_os_remove [simp]: "calls (os_remove p w) = calls w"
  by (simp add: os_remove_def)

lemma quiet_comparison_calls: "quiet w w' \<Longrightarrow> comparison_calls w' = comparison_calls w"
  by (auto dest!: quietD simp: comparison_calls_def)

lemma is_comparison_request:
  "is_comparison_call (ChatCompletionsCreate (request role prompt t)) \<longleftrightarrow>
     role = contradictions_role \<or> role = questions_role"
  by (auto simp: request_def ascii_def)

lemma roles_distinct:
  "summarize_role \<noteq> contradictions_role" "summarize_role \<noteq> questions_role"
  "sequence_role \<noteq> contradictions_role" "sequence_role \<noteq> questions_role"
  "key_facts_role \<noteq> contradictions_role" "key_facts_role \<noteq> questions_role"
  by (simp_all add: summarize_role_def sequence_role_def key_facts_role_def
      contradictions_role_def questions_role_def)

lemma calls_record_simps [simp]:
  "calls (w\<lparr>files := f\<rparr>) = calls w"
  "calls (w\<lparr>files := f, tmp_count := n\<rparr>) = calls w"
  by simp_all

lemma extract_audio_quiet: "quiet w (snd (extract_audio env u w))"
  by (auto simp: extract_audio_def write_upload_def run_ffmpeg_def from_mp3_def Let_def
      quiet_def new_calls_def
      split: prod.splits sum.splits option.splits conversion.splits)

lemma transcribe_audio_quiet: "quiet w (snd (transcribe_audio env client a lang w))"
  by (auto simp: transcribe_audio_def Let_def quiet_def new_calls_def
      split: prod.splits sum.splits option.splits)

lemma chat_call:
  "chat_completions_create env client req w =
     (text_generation env client req, log_call (ChatCompletionsCreate req) w)"
  by (simp add: chat_completions_create_def)

lemma quiet_log_call_self: "\<not> is_comparison_call c \<Longrightarrow> quiet w (log_call c w)"
  by (simp add: quiet_log_call)

lemma quiet_analysis_call:
  "role \<noteq> contradictions_role \<Longrightarrow> role \<noteq> questions_role \<Longrightarrow>
   quiet w (log_call (ChatCompletionsCreate (request role prompt t)) w)"
  using is_comparison_request [of role prompt t] by (intro quiet_log_call_self) blast

lemma summarize_text_quiet: "quiet w (snd (summarize_text env client t lang w))"
  by (simp add: summarize_text_def chat_call quiet_analysis_call roles_distinct
      split: sum.splits)

lemma check_sequence_quiet: "quiet w (snd (check_sequence env client t w))"
  by (simp add: check_sequence_def chat_call quiet_analysis_call roles_distinct
      split: sum.splits)

lemma extract_key_facts_quiet: "quiet w (snd (extract_key_facts env client t w))"
  by (simp add: extract_key_facts_def chat_call quiet_analysis_call roles_distinct split: sum.splits)

lemma summarize_text_Inr: "\<exists>s. fst (summarize_text env client t lang w) = Inr s"
  by (simp add: summarize_text_def chat_call split: sum.splits)

lemma check_sequence_Inr: "\<exists>s. fst (check_sequence env client t w) = Inr s"
  by (simp add: check_sequence_def chat_call split: sum.splits)

lemma extract_key_facts_Inr: "\<exists>s. fst (extract_key_facts env client t w) = Inr s"
  by (simp add: extract_key_facts_def chat_call split: sum.splits)

lemma check_contradictions_Inr: "\<exists>s. fst (check_contradictions env client a b w) = Inr s"
  by (simp add: check_contradictions_def chat_call split: sum.splits)

lemma formulate_questions_Inr: "\<exists>s. fst (formulate_questions env client c w) = Inr s"
  by (simp add: formulate_questions_def chat_call split: sum.splits)

lemma check_contradictions_calls:
  "calls (snd (check_contradictions env client a b w)) =
     calls w @ [ChatCompletionsCreate (request contradictions_role (contradictions_prompt a b) (1 / 2))]"
  by (simp add: check_contradictions_def chat_call split: sum.splits)

lemma formulate_questions_calls:
  "calls (snd (formulate_questions env client c w)) =
     calls w @ [ChatCompletionsCreate (request questions_role (questions_prompt c) (7 / 10))]"
  by (simp add: formulate_questions_def chat_call split: sum.splits)

lemma stage_quiet:
  "extract_audio env u w = (r1, w1) \<Longrightarrow> quiet w w1"
  "transcribe_audio env client a lang w = (r2, w2) \<Longrightarrow> quiet w w2"
  "summarize_text env client t lang w = (r3, w3) \<Longrightarrow> quiet w w3"
  "check_sequence env client t w = (r4, w4) \<Longrightarrow> quiet w w4"
  "extract_key_facts env client t w = (r5, w5) \<Longrightarrow> quiet w w5"
  using extract_audio_quiet [of w env u] transcribe_audio_quiet [of w env client a lang]
    summarize_text_quiet [of w env client t lang] check_sequence_quiet [of w env client t]
    extract_key_facts_quiet [of w env client t]
  by simp_all

lemma process_party_quiet: "quiet w (snd (process_party env client p u lang w))"
  unfolding process_party_def
  by (auto split: prod.splits sum.splits dest!: stage_quiet) (blast intro: quiet_trans)+

lemma party_branch_quiet: "quiet w (snd (party_branch env client p uf lang w))"
  by (simp add: party_branch_def process_party_quiet split: option.splits)

lemma summarize_text_eq:
  "summarize_text env client t lang w =
     (case text_generation env client (request summarize_role (summarize_prompt t lang) (1 / 2)) of
        Inr content \<Rightarrow> (Inr (strip content), log_call (ChatCompletionsCreate (request summarize_role (summarize_prompt t lang) (1 / 2))) w)
      | Inl e \<Rightarrow> (Inr [], st_error summarize_error_prefix (Some e)
                           (log_call (ChatCompletionsCreate (request summarize_role (summarize_prompt t lang) (1 / 2))) w)))"
  by (simp add: summarize_text_def chat_call split: sum.splits)

lemma check_sequence_eq:
  "check_sequence env client t w =
     (case text_generation env client (request sequence_role (sequence_prompt t) (1 / 2)) of
        Inr content \<Rightarrow> (Inr (strip content), log_call (ChatCompletionsCreate (request sequence_role (sequence_prompt t) (1 / 2))) w)
      | Inl e \<Rightarrow> (Inr [], st_error sequence_error_prefix (Some e)
                           (log_call (ChatCompletionsCreate (request sequence_role (sequence_prompt t) (1 / 2))) w)))"
  by (simp add: check_sequence_def chat_call split: sum.splits)

lemma extract_key_facts_eq:
  "extract_key_facts env client t w =
     (case text_generation env client (request key_facts_role (key_facts_prompt t) (1 / 2)) of
        Inr content \<Rightarrow> (Inr (strip content), log_call (ChatCompletionsCreate (request key_facts_role (key_facts_prompt t) (1 / 2))) w)
      | Inl e \<Rightarrow> (Inr [], st_error key_facts_error_prefix (Some e)
                           (log_call (ChatCompletionsCreate (request key_facts_role (key_facts_prompt t) (1 / 2))) w)))"
  by (simp add: extract_key_facts_def chat_call split: sum.splits)

lemma check_contradictions_eq:
  "check_contradictions env client a b w =
     (case text_generation env client (request contradictions_role (contradictions_prompt a b) (1 / 2)) of
        Inr content \<Rightarrow> (Inr (strip content), log_call (ChatCompletionsCreate (request contradictions_role (contradictions_prompt a b) (1 / 2))) w)
      | Inl e \<Rightarrow> (Inr [], st_error contradictions_error_prefix (Some e)
                           (log_call (ChatCompletionsCreate (request contradictions_role (contradictions_prompt a b) (1 / 2))) w)))"
  by (simp add: check_contradictions_def chat_call split: sum.splits)

lemma formulate_questions_eq:
  "formulate_questions env client c w =
     (case text_generation env client (request questions_role (questions_prompt c) (7 / 10)) of
        Inr content \<Rightarrow> (Inr (strip content), log_call (ChatCompletionsCreate (request questions_role (questions_prompt c) (7 / 10))) w)
      | Inl e \<Rightarrow> (Inr [], st_error questions_error_prefix (Some e)
                           (log_call (ChatCompletionsCreate (request questions_role (questions_prompt c) (7 / 10))) w)))"
  by (simp add: formulate_questions_def chat_call split: sum.splits)

lemma ui_log_call [simp]: "ui (log_call c w) = ui w"
  by (simp add: log_call_def)

lemma ui_st_error [simp]: "ui (st_error m e w) = ui w @ [StError m e]"
  by (simp add: st_error_def)

text \<open>
  C6: each of the five generation transforms returns a text and never an exception; when
  the text-generation call raises \<open>e\<close>, the text is empty and the error is shown with the
  transform's prefix.
\<close>

theorem generation_fails_softly:
  "((\<exists>s. fst (summarize_text env client t lang w) = Inr s) \<and>
    (\<forall>e. text_generation env client (request summarize_role (summarize_prompt t lang) (1 / 2)) = Inl e \<longrightarrow>
       fst (summarize_text env client t lang w) = Inr [] \<and>
       ui (snd (summarize_text env client t lang w)) = ui w @ [StError summarize_error_prefix (Some e)])) \<and>
   ((\<exists>s. fst (check_sequence env client t w) = Inr s) \<and>
    (\<forall>e. text_generation env client (request sequence_role (sequence_prompt t) (1 / 2)) = Inl e \<longrightarrow>
       fst (check_sequence env client t w) = Inr [] \<and>
       ui (snd (check_sequence env client t w)) = ui w @ [StError sequence_error_prefix (Some e)])) \<and>
   ((\<exists>s. fst (extract_key_facts env client t w) = Inr s) \<and>
    (\<forall>e. text_generation env client (request key_facts_role (key_facts_prompt t) (1 / 2)) = Inl e \<longrightarrow>
       fst (extract_key_facts env client t w) = Inr [] \<and>
       ui (snd (extract_key_facts env client t w)) = ui w @ [StError key_facts_error_prefix (Some e)])) \<and>
   ((\<exists>s. fst (check_contradictions env client t t' w) = Inr s) \<and>
    (\<forall>e. text_generation env client
            (request contradictions_role (contradictions_prompt t t') (1 / 2)) = Inl e \<longrightarrow>
       fst (check_contradictions env client t t' w) = Inr [] \<and>
       ui (snd (check_contradictions env client t t' w)) =
         ui w @ [StError contradictions_error_prefix (Some e)])) \<and>
   ((\<exists>s. fst (formulate_questions env client t w) = Inr s) \<and>
    (\<forall>e. text_generation env client (request questions_role (questions_prompt t) (7 / 10)) = Inl e \<longrightarrow>
       fst (formulate_questions env client t w) = Inr [] \<and>
       ui (snd (formulate_questions env client t w)) = ui w @ [StError questions_error_prefix (Some e)]))"
proof (intro conjI)
  show "\<exists>s. fst (summarize_text env client t lang w) = Inr s"
    by (rule summarize_text_Inr)
  show "\<exists>s. fst (check_sequence env client t w) = Inr s"
    by (rule check_sequence_Inr)
  show "\<exists>s. fst (extract_key_facts env client t w) = Inr s"
    by (rule extract_key_facts_Inr)
  show "\<exists>s. fst (check_contradictions env client t t' w) = Inr s"
    by (rule check_contradictions_Inr)
  show "\<exists>s. fst (formulate_questions env client t w) = Inr s"
    by (rule formulate_questions_Inr)
qed (simp_all add: summarize_text_eq check_sequence_eq extract_key_facts_eq
      check_contradictions_eq formulate_questions_eq)

lemma offline_generation: "text_generation offline_env c r = Inl (PyException (ascii ''timeout''))"
  by (simp add: offline_env_def)

text \<open>With text generation down, all five transforms return the empty text.\<close>

theorem generation_fails_softly_witness:
  "text_generation offline_env (OpenAI []) (request summarize_role (summarize_prompt [] []) (1 / 2))
     = Inl (PyException (ascii ''timeout'')) \<and>
   fst (summarize_text offline_env (OpenAI []) [] [] empty_world) = Inr [] \<and>
   ui (snd (summarize_text offline_env (OpenAI []) [] [] empty_world)) =
     [StError summarize_error_prefix (Some (PyException (ascii ''timeout'')))] \<and>
   fst (check_sequence offline_env (OpenAI []) [] empty_world) = Inr [] \<and>
   fst (extract_key_facts offline_env (OpenAI []) [] empty_world) = Inr [] \<and>
   fst (check_contradictions offline_env (OpenAI []) [] [] empty_world) = Inr [] \<and>
   fst (formulate_questions offline_env (OpenAI []) [] empty_world) = Inr []"
  using generation_fails_softly [of offline_env "OpenAI []" "[]" "[]" empty_world "[]"]
  by (simp add: offline_generation empty_world_def)

lemma process_eq:
  "process env client uf1 uf2 lang w =
     (let b1 = party_branch env client Party1 uf1 lang w;
          b2 = party_branch env client Party2 uf2 lang (snd b1);
          t1 = transcription (fst b1); t2 = transcription (fst b2);
          ask = request contradictions_role (contradictions_prompt t1 t2) (1 / 2);
          cc = check_contradictions env client t1 t2 (snd b2);
          c = (case text_generation env client ask of Inr x \<Rightarrow> strip x | Inl e \<Rightarrow> []);
          q = (case text_generation env client
                      (request questions_role (questions_prompt c) (7 / 10)) of
                 Inr x \<Rightarrow> strip x | Inl e \<Rightarrow> [])
      in if t1 \<noteq> [] \<and> t2 \<noteq> [] then
           (Inr \<lparr>party1 = fst b1, party2 = fst b2, comparison = Some (c, q)\<rparr>,
            snd (formulate_questions env client c (snd cc)))
         else (Inr \<lparr>party1 = fst b1, party2 = fst b2, comparison = None\<rparr>, snd b2))"
  by (auto simp: process_def Let_def check_contradictions_eq formulate_questions_eq
      split: prod.splits sum.splits)

lemma comparison_calls_log_call:
  "comparison_calls (log_call c w) =
     comparison_calls w @ (if is_comparison_call c then [c] else [])"
  by (simp add: comparison_calls_def)

lemma comparison_calls_st_error [simp]: "comparison_calls (st_error m e w) = comparison_calls w"
  by (simp add: comparison_calls_def)

lemma comparison_calls_check_contradictions:
  "comparison_calls (snd (check_contradictions env client a b w)) =
     comparison_calls w @
     [ChatCompletionsCreate (request contradictions_role (contradictions_prompt a b) (1 / 2))]"
  by (simp add: check_contradictions_eq comparison_calls_log_call is_comparison_request
      del: is_comparison_call.simps split: sum.splits)

lemma comparison_calls_formulate_questions:
  "comparison_calls (snd (formulate_questions env client c w)) =
     comparison_calls w @
     [ChatCompletionsCreate (request questions_role (questions_prompt c) (7 / 10))]"
  by (simp add: formulate_questions_eq comparison_calls_log_call is_comparison_request
      del: is_comparison_call.simps split: sum.splits)

lemma branches_comparison_calls:
  "comparison_calls (snd (party_branch env client Party2 uf2 lang
       (snd (party_branch env client Party1 uf1 lang w)))) = comparison_calls w"
  using party_branch_quiet [of w env client Party1 uf1 lang]
    party_branch_quiet [of "snd (party_branch env client Party1 uf1 lang w)" env client Party2 uf2 lang]
  by (simp add: quiet_comparison_calls)

lemma party_branch_None: "fst (party_branch env client p None lang w) = no_result"
  by (simp add: party_branch_def)

text \<open>
  C1: the handler never raises; the comparison exists exactly when both transcripts are
  non-empty, so not when an upload is absent; and the run logs the two comparison calls,
  \<open>check_contradictions\<close> then \<open>formulate_questions\<close>, in that case and none otherwise.
\<close>

theorem comparison_iff_both_transcripts:
  "\<exists>b. fst (process env client uf1 uf2 lang w) = Inr b \<and>
     (comparison b \<noteq> None \<longleftrightarrow>
        transcription (party1 b) \<noteq> [] \<and> transcription (party2 b) \<noteq> []) \<and>
     (uf1 = None \<or> uf2 = None \<longrightarrow> comparison b = None) \<and>
     (case comparison b of
        None \<Rightarrow>
          comparison_calls (snd (process env client uf1 uf2 lang w)) = comparison_calls w
      | Some (c, q) \<Rightarrow>
          comparison_calls (snd (process env client uf1 uf2 lang w)) =
            comparison_calls w @
            [ChatCompletionsCreate
               (request contradictions_role
                  (contradictions_prompt (transcription (party1 b)) (transcription (party2 b)))
                  (1 / 2)),
             ChatCompletionsCreate (request questions_role (questions_prompt c) (7 / 10))])"
  by (cases uf1; cases uf2)
    (simp_all add: process_eq Let_def branches_comparison_calls party_branch_None no_result_def
      comparison_calls_check_contradictions comparison_calls_formulate_questions)

section \<open>Temporary paths\<close>

lemma rfind_from_absent: "c \<notin> set xs \<Longrightarrow> rfind_from c i xs found = found"
  by (induction xs arbitrary: i found) auto

lemma rfind_from_append:
  "rfind_from c i (xs @ ys) found = rfind_from c (i + length xs) ys (rfind_from c i xs found)"
  by (induction xs arbitrary: i found) auto

lemma rfind_from_bound:
  "found < int i + int (length xs) \<Longrightarrow> rfind_from c i xs found < int i + int (length xs)"
proof (induction xs arbitrary: i found)
  case Nil
  then show ?case by simp
next
  case (Cons x xs)
  have "rfind_from c (Suc i) xs (if x = c then int i else found) < int (Suc i) + int (length xs)"
    using Cons.prems by (intro Cons.IH) auto
  then show ?case by simp
qed

lemma rfind_last:
  "c \<notin> set ys \<Longrightarrow> rfind (xs @ c # ys) c = int (length xs)"
  by (simp add: rfind_def rfind_from_append rfind_from_absent)

lemma rfind_prefix_bound:
  "c \<notin> set ys \<Longrightarrow> rfind (xs @ ys) c < int (length xs)"
  using rfind_from_bound [of "- 1" 0 xs c]
  by (simp add: rfind_def rfind_from_append rfind_from_absent)

lemma splitext_scan_found:
  "i \<le> k \<Longrightarrow> k < d \<Longrightarrow> take 1 (drop k p) \<noteq> [46] \<Longrightarrow>
   splitext_scan p i d = (take d p, drop d p)"
proof (induction "k - i" arbitrary: i)
  case 0
  then have "i = k" by simp
  with 0 show ?case by (subst splitext_scan.simps) simp
next
  case (Suc n)
  then have "i < d" and step: "n = k - (i + 1)" "i + 1 \<le> k" by simp_all
  show ?case
  proof (cases "take 1 (drop i p) \<noteq> [46]")
    case True
    with \<open>i < d\<close> show ?thesis by (subst splitext_scan.simps) simp
  next
    case False
    have "splitext_scan p (i + 1) d = (take d p, drop d p)"
      using Suc.hyps(1) [OF step(1) step(2) Suc.prems(2) Suc.prems(3)] .
    with False \<open>i < d\<close> show ?thesis by (subst splitext_scan.simps) simp
  qed
qed

lemma splitext_temp:
  assumes "47 \<notin> set r"
  shows "os_path_splitext (pre @ ascii ''tmp'' @ r @ ascii ''.mp4'') =
           (pre @ ascii ''tmp'' @ r, ascii ''.mp4'')"
proof -
  let ?p = "pre @ ascii ''tmp'' @ r @ ascii ''.mp4''"
  have p46: "?p = (pre @ ascii ''tmp'' @ r) @ 46 # [109, 112, 52]"
    by (simp add: ascii_def)
  have dot: "rfind ?p 46 = int (length (pre @ ascii ''tmp'' @ r))"
    unfolding p46 by (rule rfind_last) simp
  have sep: "rfind ?p 47 < int (length pre)"
    using assms by (intro rfind_prefix_bound) (simp add: ascii_def)
  have gt: "rfind ?p 46 > rfind ?p 47"
    using dot sep by simp
  have t: "take 1 (drop (length pre) ?p) \<noteq> [46]"
    by (simp add: ascii_def)
  have scan: "splitext_scan ?p (nat (rfind ?p 47 + 1)) (nat (rfind ?p 46)) =
        (take (nat (rfind ?p 46)) ?p, drop (nat (rfind ?p 46)) ?p)"
    using sep dot t by (intro splitext_scan_found [where k = "length pre"]) (simp_all add: ascii_def)
  have "os_path_splitext ?p = (take (nat (rfind ?p 46)) ?p, drop (nat (rfind ?p 46)) ?p)"
    using gt scan by (simp add: os_path_splitext_def Let_def)
  also have "\<dots> = (pre @ ascii ''tmp'' @ r, ascii ''.mp4'')"
    unfolding dot by simp
  finally show ?thesis .
qed

section \<open>What a branch yields\<close>

lemma temp_name_shape:
  "\<exists>pre. \<forall>suffix. temp_name env suffix w = pre @ ascii ''tmp'' @ random_name env (tmp_count w) @ suffix"
proof (cases "gettempdir env = [] \<or> last (gettempdir env) = 47")
  case True
  then show ?thesis
    by (intro exI [of _ "gettempdir env"]) (auto simp: temp_name_def os_path_join_def ascii_def)
next
  case False
  then show ?thesis
    by (intro exI [of _ "gettempdir env @ [47]"]) (auto simp: temp_name_def os_path_join_def ascii_def)
qed

lemma video_path_last: "last (temp_name env (ascii ''.mp4'') w) = 52"
proof -
  obtain pre where "temp_name env (ascii ''.mp4'') w =
      pre @ ascii ''tmp'' @ random_name env (tmp_count w) @ ascii ''.mp4''"
    using temp_name_shape by blast
  then show ?thesis by (simp add: ascii_def)
qed

lemma audio_path_differs:
  "stem @ ascii ''.mp3'' \<noteq> temp_name env (ascii ''.mp4'') w"
proof
  assume "stem @ ascii ''.mp3'' = temp_name env (ascii ''.mp4'') w"
  then have "last (stem @ ascii ''.mp3'') = 52"
    using video_path_last by simp
  then show False by (simp add: ascii_def)
qed

lemma extract_audio_outcome:
  assumes "extract_audio env u w = (r, w1)"
  shows "case ffmpeg_convert env (upload_data u) of
           Converted out \<Rightarrow>
             files w1 (fst (os_path_splitext (temp_name env (ascii ''.mp4'') w)) @ ascii ''.mp3'') = Some out \<and>
             (case decode_mp3 env out of
                Inl e \<Rightarrow> r = Inl e
              | Inr n \<Rightarrow> r = Inr (fst (os_path_splitext (temp_name env (ascii ''.mp4'') w)) @ ascii ''.mp3'',
                                  of_nat n / 1000))
         | ConversionFailed n out \<Rightarrow> r = Inl (CalledProcessError n)
         | FfmpegMissing \<Rightarrow> r = Inl FileNotFoundError"
  using assms audio_path_differs [of "fst (os_path_splitext (temp_name env (ascii ''.mp4'') w))" env w]
  by (auto simp: extract_audio_def write_upload_def run_ffmpeg_def from_mp3_def Let_def
      os_path_exists_def os_remove_def
      split: conversion.splits sum.splits option.splits if_splits)

lemma transcribe_audio_fst:
  "files w a = Some out \<Longrightarrow>
   fst (transcribe_audio env client a lang w) = speech_to_text env client out lang"
  by (simp add: transcribe_audio_def Let_def split: prod.splits)

lemma transcribe_audio_result:
  "transcribe_audio env client a lang w = (r, w') \<Longrightarrow> files w a = Some out \<Longrightarrow>
   r = speech_to_text env client out lang"
  using transcribe_audio_fst [of w a out env client lang] by simp

lemma analysis_after_transcription:
  "(case summarize_text env client t lang w2 of
      (Inl e, w3) \<Rightarrow> (no_result\<lparr>transcription := t\<rparr>, st_error m (Some e) w3)
    | (Inr s, w3) \<Rightarrow>
   (case check_sequence env client t w3 of
      (Inl e, w4) \<Rightarrow> (no_result\<lparr>transcription := t, summary := s\<rparr>, st_error m (Some e) w4)
    | (Inr c, w4) \<Rightarrow>
   (case extract_key_facts env client t w4 of
      (Inl e, w5) \<Rightarrow>
        (no_result\<lparr>transcription := t, summary := s, sequence_check := c\<rparr>,
         st_error m (Some e) w5)
    | (Inr k, w5) \<Rightarrow>
        (\<lparr>transcription = t, summary = s, sequence_check = c, key_facts = k\<rparr>, w5)))) =
   (\<lparr>transcription = t,
     summary = generated env client (request summarize_role (summarize_prompt t lang) (1 / 2)),
     sequence_check = generated env client (request sequence_role (sequence_prompt t) (1 / 2)),
     key_facts = generated env client (request key_facts_role (key_facts_prompt t) (1 / 2))\<rparr>,
    snd (extract_key_facts env client t
          (snd (check_sequence env client t (snd (summarize_text env client t lang w2))))))"
  by (simp add: summarize_text_eq check_sequence_eq extract_key_facts_eq generated_def
      split: sum.splits)

lemma process_party_fst:
  "fst (process_party env client p u lang w) = party_outcome env client u lang"
proof -
  obtain r w1 where ex: "extract_audio env u w = (r, w1)"
    by fastforce
  note out = extract_audio_outcome [OF ex]
  show ?thesis
  proof (cases "ffmpeg_convert env (upload_data u)")
    case (Converted out')
    with out have f: "files w1 (fst (os_path_splitext (temp_name env (ascii ''.mp4'') w)) @ ascii ''.mp3'') = Some out'"
      by simp
    show ?thesis
    proof (cases "decode_mp3 env out'")
      case (Inl e)
      with out Converted have "r = Inl e" by simp
      with ex Converted Inl show ?thesis
        by (simp add: process_party_def party_outcome_def)
    next
      case (Inr n)
      with out Converted have r: "r = Inr (fst (os_path_splitext (temp_name env (ascii ''.mp4'') w)) @ ascii ''.mp3'', of_nat n / 1000)"
        by simp
      show ?thesis
      proof (cases "speech_to_text env client out' lang")
        case (Inl e)
        with ex r f Converted Inr show ?thesis
          by (auto simp: process_party_def party_outcome_def split: prod.splits sum.splits
              dest!: transcribe_audio_result)
      next
        case (Inr t)
        with ex r f Converted \<open>decode_mp3 env out' = Inr n\<close> show ?thesis
          by (auto simp: process_party_def party_outcome_def analysis_after_transcription
              split: prod.splits sum.splits dest!: transcribe_audio_result)
      qed
    qed
  next
    case (ConversionFailed n out')
    with out ex show ?thesis
      by (simp add: process_party_def party_outcome_def)
  next
    case FfmpegMissing
    with out ex show ?thesis
      by (simp add: process_party_def party_outcome_def)
  qed
qed

section \<open>Branch isolation\<close>


lemma transcribe_audio_ui:
  "fst (transcribe_audio env client a lang w) = Inl e \<Longrightarrow>
   ui (snd (transcribe_audio env client a lang w)) = ui w @ [StError transcribe_error_prefix (Some e)]"
  by (auto simp: transcribe_audio_def Let_def os_remove_def split: prod.splits option.splits)

lemma process_party_extract_fails:
  "fst (extract_audio env u w) = Inl e \<Longrightarrow>
   process_party env client p u lang w =
     (no_result, st_error (party_error_prefix p) (Some e) (snd (extract_audio env u w)))"
  by (cases "extract_audio env u w") (simp add: process_party_def)



section \<open>Example runs of the handler\<close>

lemma strip_noted: "strip (ascii '' noted '') = ascii ''noted''"
  by (simp add: strip_def ascii_def isspace_def)

lemma example_outcome_good:
  "party_outcome example_env c (upload n ''speech'') l =
     \<lparr>transcription = ascii ''I was at home'', summary = ascii ''noted'',
      sequence_check = ascii ''noted'', key_facts = ascii ''noted''\<rparr>"
  by (simp add: party_outcome_def example_env_def upload_def generated_def strip_noted)


lemma offline_outcome_good:
  "party_outcome offline_env c (upload n ''speech'') l =
     \<lparr>transcription = ascii ''I was at home'', summary = [], sequence_check = [], key_facts = []\<rparr>"
  by (simp add: party_outcome_def offline_env_def example_env_def upload_def generated_def)

lemma party_branch_fst:
  "fst (party_branch env client p uf lang w) =
     (case uf of None \<Rightarrow> no_result | Some u \<Rightarrow> party_outcome env client u lang)"
  by (simp add: party_branch_def process_party_fst split: option.splits)

lemma process_parties:
  assumes "fst (process env client uf1 uf2 lang w) = Inr b"
  shows "party1 b = (case uf1 of None \<Rightarrow> no_result | Some u \<Rightarrow> party_outcome env client u lang)"
    and "party2 b = (case uf2 of None \<Rightarrow> no_result | Some u \<Rightarrow> party_outcome env client u lang)"
  using assms by (auto simp: process_eq Let_def party_branch_fst split: if_splits)


text \<open>With the first upload only, the first transcript is there and no comparison is made.\<close>

theorem comparison_iff_both_transcripts_witness:
  "(\<exists>b. fst (process example_env (OpenAI (ascii ''sk-test''))
              (Some (upload ''one.mp4'' ''speech'')) None (ascii ''ru'') empty_world) = Inr b \<and>
        transcription (party1 b) = ascii ''I was at home'' \<and> comparison b = None) \<and>
   comparison_calls (snd (process example_env (OpenAI (ascii ''sk-test''))
              (Some (upload ''one.mp4'' ''speech'')) None (ascii ''ru'') empty_world)) = []"
proof -
  let ?run = "process example_env (OpenAI (ascii ''sk-test''))
              (Some (upload ''one.mp4'' ''speech'')) None (ascii ''ru'') empty_world"
  from comparison_iff_both_transcripts [of example_env "OpenAI (ascii ''sk-test'')"
      "Some (upload ''one.mp4'' ''speech'')" None "ascii ''ru''" empty_world]
  obtain b where b: "fst ?run = Inr b"
    and none: "Some (upload ''one.mp4'' ''speech'') = None \<or> (None :: uploaded_file option) = None
        \<longrightarrow> comparison b = None"
    and log: "case comparison b of
        None \<Rightarrow> comparison_calls (snd ?run) = comparison_calls empty_world
      | Some (c, q) \<Rightarrow>
          comparison_calls (snd ?run) =
            comparison_calls empty_world @
            [ChatCompletionsCreate
               (request contradictions_role
                  (contradictions_prompt (transcription (party1 b)) (transcription (party2 b)))
                  (1 / 2)),
             ChatCompletionsCreate (request questions_role (questions_prompt c) (7 / 10))]"
    by blast
  from none have c: "comparison b = None" by simp
  with log have l: "comparison_calls (snd ?run) = []"
    by (simp add: comparison_calls_def empty_world_def)
  have "party1 b = party_outcome example_env (OpenAI (ascii ''sk-test''))
      (upload ''one.mp4'' ''speech'') (ascii ''ru'')"
    using process_parties(1) [OF b] by simp
  with b c l show ?thesis
    by (simp add: example_outcome_good)
qed

section \<open>Questions after contradictions\<close>

lemma last_calls_formulate_questions:
  "last (calls (snd (formulate_questions env client c w))) =
     ChatCompletionsCreate (request questions_role (questions_prompt c) (7 / 10))"
  by (simp add: formulate_questions_calls)

text \<open>
  C7: when both transcripts are non-empty, the comparison holds the contradictions text
  \<open>c\<close>, empty or not, and the questions that \<open>formulate_questions\<close> made from it, whose
  request is the last call of the run; and \<open>formulate_questions\<close> on the empty text
  returns what the generation call gives for the bare prompt, or the empty text.
\<close>

theorem questions_follow_contradictions:
  "(\<exists>b. fst (process env client uf1 uf2 lang w) = Inr b \<and>
      (transcription (party1 b) \<noteq> [] \<and> transcription (party2 b) \<noteq> [] \<longrightarrow>
         (\<exists>c. c = generated env client
                    (request contradictions_role
                       (contradictions_prompt (transcription (party1 b)) (transcription (party2 b)))
                       (1 / 2)) \<and>
              comparison b =
                Some (c, generated env client (request questions_role (questions_prompt c) (7 / 10))) \<and>
              last (calls (snd (process env client uf1 uf2 lang w))) =
                ChatCompletionsCreate (request questions_role (questions_prompt c) (7 / 10))))) \<and>
   fst (formulate_questions env client [] w) =
     Inr (generated env client (request questions_role (questions_prompt []) (7 / 10)))"
  by (simp add: process_eq Let_def generated_def last_calls_formulate_questions
      formulate_questions_eq split: sum.splits)

lemma offline_generated: "generated offline_env c r = []"
  by (simp add: generated_def offline_env_def)

text \<open>
  With text generation down and two good uploads, the contradictions are empty and the
  questions are still asked for.
\<close>

theorem questions_follow_contradictions_witness:
  "\<exists>b. fst (process offline_env (OpenAI (ascii ''sk-test''))
             (Some (upload ''one.mp4'' ''speech'')) (Some (upload ''two.wav'' ''speech''))
             (ascii ''ru'') empty_world) = Inr b \<and>
       transcription (party1 b) = ascii ''I was at home'' \<and>
       transcription (party2 b) = ascii ''I was at home'' \<and>
       comparison b = Some ([], []) \<and>
       last (calls (snd (process offline_env (OpenAI (ascii ''sk-test''))
             (Some (upload ''one.mp4'' ''speech'')) (Some (upload ''two.wav'' ''speech''))
             (ascii ''ru'') empty_world))) =
         ChatCompletionsCreate (request questions_role (questions_prompt []) (7 / 10))"
proof -
  let ?run = "process offline_env (OpenAI (ascii ''sk-test''))
             (Some (upload ''one.mp4'' ''speech'')) (Some (upload ''two.wav'' ''speech''))
             (ascii ''ru'') empty_world"
  from questions_follow_contradictions [of offline_env "OpenAI (ascii ''sk-test'')"
      "Some (upload ''one.mp4'' ''speech'')" "Some (upload ''two.wav'' ''speech'')"
      "ascii ''ru''" empty_world]
  obtain b where b: "fst ?run = Inr b"
    and q: "transcription (party1 b) \<noteq> [] \<and> transcription (party2 b) \<noteq> [] \<longrightarrow>
         (\<exists>c. c = generated offline_env (OpenAI (ascii ''sk-test''))
                    (request contradictions_role
                       (contradictions_prompt (transcription (party1 b)) (transcription (party2 b)))
                       (1 / 2)) \<and>
              comparison b =
                Some (c, generated offline_env (OpenAI (ascii ''sk-test''))
                           (request questions_role (questions_prompt c) (7 / 10))) \<and>
              last (calls (snd ?run)) =
                ChatCompletionsCreate (request questions_role (questions_prompt c) (7 / 10)))"
    by blast
  have t: "transcription (party1 b) = ascii ''I was at home''"
    "transcription (party2 b) = ascii ''I was at home''"
    using process_parties [OF b] by (simp_all add: offline_outcome_good)
  then have "transcription (party1 b) \<noteq> [] \<and> transcription (party2 b) \<noteq> []"
    by (simp add: ascii_def)
  with q have "comparison b = Some ([], []) \<and>
      last (calls (snd ?run)) =
        ChatCompletionsCreate (request questions_role (questions_prompt []) (7 / 10))"
    by (simp add: offline_generated)
  with b t show ?thesis by blast
qed

section \<open>The paths of the temporary files\<close>

lemma extract_audio_calls:
  "Subprocess (convert_argv (temp_name env (ascii ''.mp4'') w)
       (fst (os_path_splitext (temp_name env (ascii ''.mp4'') w)) @ ascii ''.mp3''))
     \<in> set (calls (snd (extract_audio env u w)))"
  by (auto simp: extract_audio_def write_upload_def run_ffmpeg_def from_mp3_def Let_def
      split: prod.splits sum.splits option.splits conversion.splits)

lemma extract_audio_Inr_path:
  "fst (extract_audio env u w) = Inr (a, d) \<Longrightarrow>
   a = fst (os_path_splitext (temp_name env (ascii ''.mp4'') w)) @ ascii ''.mp3''"
  by (auto simp: extract_audio_def write_upload_def run_ffmpeg_def from_mp3_def Let_def
      split: prod.splits sum.splits option.splits conversion.splits if_splits)

lemma extract_audio_ignores_name:
  "extract_audio env (u\<lparr>upload_name := n\<rparr>) w = extract_audio env u w"
  by (simp add: extract_audio_def write_upload_def)

lemma video_gone_after_extraction:
  "files (snd (extract_audio env u w)) (temp_name env (ascii ''.mp4'') w) = None"
  by (simp add: extract_audio_def write_upload_def Let_def removed_when_present
      split: prod.splits)

lemma write_upload_eq:
  "fst (write_upload env u w) = temp_name env (ascii ''.mp4'') w"
  "files (snd (write_upload env u w)) (temp_name env (ascii ''.mp4'') w) = Some (upload_data u)"
  by (simp_all add: write_upload_def Let_def)

lemma extract_audio_first_call:
  "\<exists>rest. calls (snd (extract_audio env u w)) =
     calls w @ Subprocess (convert_argv (temp_name env (ascii ''.mp4'') w)
       (fst (os_path_splitext (temp_name env (ascii ''.mp4'') w)) @ ascii ''.mp3'')) # rest"
  by (auto simp: extract_audio_def write_upload_def run_ffmpeg_def from_mp3_def Let_def
      split: prod.splits sum.splits option.splits conversion.splits)

lemma extract_audio_fst_same_count:
  assumes "tmp_count w' = tmp_count w"
  shows "fst (extract_audio env u w') = fst (extract_audio env u w)"
proof -
  have t: "temp_name env (ascii ''.mp4'') w' = temp_name env (ascii ''.mp4'') w"
    using assms by (simp add: temp_name_def)
  note a = extract_audio_outcome [of env u w "fst (extract_audio env u w)"
      "snd (extract_audio env u w)"]
  note b = extract_audio_outcome [of env u w' "fst (extract_audio env u w')"
      "snd (extract_audio env u w')", unfolded t]
  show ?thesis
  proof (cases "ffmpeg_convert env (upload_data u)")
    case (Converted out)
    with a b show ?thesis
      by (cases "decode_mp3 env out") simp_all
  next
    case (ConversionFailed n out)
    with a b show ?thesis by simp
  next
    case FfmpegMissing
    with a b show ?thesis by simp
  qed
qed

lemma extract_audio_tmp_count: "tmp_count (snd (extract_audio env u w)) = tmp_count w + 1"
  by (auto simp: extract_audio_def write_upload_def run_ffmpeg_def from_mp3_def Let_def
      st_error_def log_call_def os_remove_def
      split: prod.splits sum.splits option.splits conversion.splits)

text \<open>
  C9: when the random part of the temporary name has no slash, there is a \<open>stem\<close> such
  that the upload's bytes are written to \<open>stem.mp4\<close>; the first call of
  \<open>extract_audio\<close> runs ffmpeg from \<open>stem.mp4\<close> to \<open>stem.mp3\<close>; what
  \<open>extract_audio\<close> returns or raises is what ffmpeg and the decoder make of the
  upload's bytes, with the converted audio left at \<open>stem.mp3\<close>, the path returned on
  success, and \<open>stem.mp4\<close> removed; one temporary name is used up, and what was at
  \<open>stem.mp4\<close> before makes no difference; and the upload's declared name plays no part.
\<close>

theorem temp_video_and_audio_paths:
  assumes "47 \<notin> set (random_name env (tmp_count w))"
  shows "\<exists>stem. fst (write_upload env u w) = stem @ ascii ''.mp4'' \<and>
     files (snd (write_upload env u w)) (stem @ ascii ''.mp4'') = Some (upload_data u) \<and>
     (\<exists>rest. calls (snd (extract_audio env u w)) =
        calls w @ Subprocess (convert_argv (stem @ ascii ''.mp4'') (stem @ ascii ''.mp3'')) # rest) \<and>
     (case ffmpeg_convert env (upload_data u) of
        Converted out \<Rightarrow>
          files (snd (extract_audio env u w)) (stem @ ascii ''.mp3'') = Some out \<and>
          (case decode_mp3 env out of
             Inl e \<Rightarrow> fst (extract_audio env u w) = Inl e
           | Inr n \<Rightarrow>
               fst (extract_audio env u w) = Inr (stem @ ascii ''.mp3'', of_nat n / 1000))
      | ConversionFailed n out \<Rightarrow> fst (extract_audio env u w) = Inl (CalledProcessError n)
      | FfmpegMissing \<Rightarrow> fst (extract_audio env u w) = Inl FileNotFoundError) \<and>
     files (snd (extract_audio env u w)) (stem @ ascii ''.mp4'') = None \<and>
     tmp_count (snd (extract_audio env u w)) = tmp_count w + 1 \<and>
     (\<forall>old. fst (extract_audio env u (w\<lparr>files := (files w)(stem @ ascii ''.mp4'' \<mapsto> old)\<rparr>)) =
            fst (extract_audio env u w)) \<and>
     (\<forall>a d. fst (extract_audio env u w) = Inr (a, d) \<longrightarrow> a = stem @ ascii ''.mp3'') \<and>
     (\<forall>n. extract_audio env (u\<lparr>upload_name := n\<rparr>) w = extract_audio env u w)"
proof -
  obtain pre where pre: "temp_name env (ascii ''.mp4'') w =
      pre @ ascii ''tmp'' @ random_name env (tmp_count w) @ ascii ''.mp4''"
    using temp_name_shape by blast
  let ?stem = "pre @ ascii ''tmp'' @ random_name env (tmp_count w)"
  have v: "temp_name env (ascii ''.mp4'') w = ?stem @ ascii ''.mp4''"
    using pre by simp
  have s: "fst (os_path_splitext (temp_name env (ascii ''.mp4'') w)) = ?stem"
    unfolding pre using splitext_temp [OF assms, of pre] by simp
  show ?thesis
  proof (intro exI [of _ ?stem] conjI allI impI)
    show "fst (write_upload env u w) = ?stem @ ascii ''.mp4''"
      using v by (simp add: write_upload_eq)
    show "files (snd (write_upload env u w)) (?stem @ ascii ''.mp4'') = Some (upload_data u)"
      using v write_upload_eq(2) [of env u w] by simp
    show "\<exists>rest. calls (snd (extract_audio env u w)) =
        calls w @ Subprocess (convert_argv (?stem @ ascii ''.mp4'') (?stem @ ascii ''.mp3'')) # rest"
      using extract_audio_first_call [of env u w] s v by simp
    show "case ffmpeg_convert env (upload_data u) of
        Converted out \<Rightarrow>
          files (snd (extract_audio env u w)) (?stem @ ascii ''.mp3'') = Some out \<and>
          (case decode_mp3 env out of
             Inl e \<Rightarrow> fst (extract_audio env u w) = Inl e
           | Inr n \<Rightarrow>
               fst (extract_audio env u w) = Inr (?stem @ ascii ''.mp3'', of_nat n / 1000))
      | ConversionFailed n out \<Rightarrow> fst (extract_audio env u w) = Inl (CalledProcessError n)
      | FfmpegMissing \<Rightarrow> fst (extract_audio env u w) = Inl FileNotFoundError"
      using extract_audio_outcome [of env u w "fst (extract_audio env u w)"
          "snd (extract_audio env u w)", unfolded s]
      by simp
    show "files (snd (extract_audio env u w)) (?stem @ ascii ''.mp4'') = None"
      using video_gone_after_extraction [of env u w] v by simp
    show "tmp_count (snd (extract_audio env u w)) = tmp_count w + 1"
      by (rule extract_audio_tmp_count)
    show "fst (extract_audio env u (w\<lparr>files := (files w)(?stem @ ascii ''.mp4'' \<mapsto> old)\<rparr>)) =
            fst (extract_audio env u w)" for old
      by (rule extract_audio_fst_same_count) simp
    show "a = ?stem @ ascii ''.mp3''" if "fst (extract_audio env u w) = Inr (a, d)" for a d
      using extract_audio_Inr_path [OF that] s by simp
    show "extract_audio env (u\<lparr>upload_name := n\<rparr>) w = extract_audio env u w" for n
      by (rule extract_audio_ignores_name)
  qed
qed

lemma example_video_path:
  "temp_name example_env (ascii ''.mp4'') empty_world = ascii ''/tmp/tmpk3x9_q0a'' @ ascii ''.mp4''"
  by (simp add: temp_name_def example_env_def empty_world_def os_path_join_def ascii_def)

lemma example_random_name: "47 \<notin> set (random_name example_env (tmp_count empty_world))"
  by (simp add: example_env_def empty_world_def ascii_def)

lemma example_audio_path:
  "fst (os_path_splitext (temp_name example_env (ascii ''.mp4'') empty_world)) @ ascii ''.mp3'' =
     ascii ''/tmp/tmpk3x9_q0a.mp3''"
proof -
  have "temp_name example_env (ascii ''.mp4'') empty_world =
      ascii ''/tmp/'' @ ascii ''tmp'' @ random_name example_env (tmp_count empty_world) @ ascii ''.mp4''"
    by (simp add: temp_name_def example_env_def empty_world_def os_path_join_def ascii_def)
  then have "fst (os_path_splitext (temp_name example_env (ascii ''.mp4'') empty_world)) =
      ascii ''/tmp/'' @ ascii ''tmp'' @ random_name example_env (tmp_count empty_world)"
    using splitext_temp [OF example_random_name, of "ascii ''/tmp/''"] by simp
  then show ?thesis
    by (simp add: example_env_def empty_world_def ascii_def)
qed

text \<open>A \<open>.wav\<close> upload goes through \<open>/tmp/tmpk3x9_q0a.mp4\<close> and ffmpeg.\<close>

theorem temp_video_and_audio_paths_witness:
  "47 \<notin> set (random_name example_env (tmp_count empty_world)) \<and>
   fst (write_upload example_env (upload ''two.wav'' ''speech'') empty_world) =
     ascii ''/tmp/tmpk3x9_q0a.mp4'' \<and>
   fst (extract_audio example_env (upload ''two.wav'' ''speech'') empty_world) =
     Inr (ascii ''/tmp/tmpk3x9_q0a.mp3'', 5200 / 1000) \<and>
   files (snd (extract_audio example_env (upload ''two.wav'' ''speech'') empty_world))
     (ascii ''/tmp/tmpk3x9_q0a.mp3'') = Some ''speech'' \<and>
   files (snd (extract_audio example_env (upload ''two.wav'' ''speech'') empty_world))
     (ascii ''/tmp/tmpk3x9_q0a.mp4'') = None \<and>
   (\<exists>rest. calls (snd (extract_audio example_env (upload ''two.wav'' ''speech'') empty_world)) =
      Subprocess (convert_argv (ascii ''/tmp/tmpk3x9_q0a.mp4'') (ascii ''/tmp/tmpk3x9_q0a.mp3''))
        # rest)"
proof -
  let ?u = "upload ''two.wav'' ''speech''"
  let ?x = "extract_audio example_env ?u empty_world"
  have conv: "ffmpeg_convert example_env (upload_data ?u) = Converted ''speech''"
    by (simp add: example_env_def upload_def)
  have dec: "decode_mp3 example_env ''speech'' = Inr 5200"
    by (simp add: example_env_def)
  from temp_video_and_audio_paths [OF example_random_name, of ?u]
  obtain stem where stem: "fst (write_upload example_env ?u empty_world) = stem @ ascii ''.mp4''"
    and call: "\<exists>rest. calls (snd ?x) =
        calls empty_world @
        Subprocess (convert_argv (stem @ ascii ''.mp4'') (stem @ ascii ''.mp3'')) # rest"
    and out: "case ffmpeg_convert example_env (upload_data ?u) of
        Converted out \<Rightarrow>
          files (snd ?x) (stem @ ascii ''.mp3'') = Some out \<and>
          (case decode_mp3 example_env out of
             Inl e \<Rightarrow> fst ?x = Inl e
           | Inr n \<Rightarrow> fst ?x = Inr (stem @ ascii ''.mp3'', of_nat n / 1000))
      | ConversionFailed n out \<Rightarrow> fst ?x = Inl (CalledProcessError n)
      | FfmpegMissing \<Rightarrow> fst ?x = Inl FileNotFoundError"
    and gone: "files (snd ?x) (stem @ ascii ''.mp4'') = None"
    by blast
  have w: "fst (write_upload example_env ?u empty_world) = ascii ''/tmp/tmpk3x9_q0a'' @ ascii ''.mp4''"
    using example_video_path by (simp add: write_upload_eq)
  with stem have st: "stem = ascii ''/tmp/tmpk3x9_q0a''"
    by simp
  have mp3: "ascii ''/tmp/tmpk3x9_q0a'' @ ascii ''.mp3'' = ascii ''/tmp/tmpk3x9_q0a.mp3''"
    and mp4: "ascii ''/tmp/tmpk3x9_q0a'' @ ascii ''.mp4'' = ascii ''/tmp/tmpk3x9_q0a.mp4''"
    by (simp_all add: ascii_def)
  have e: "calls empty_world = []"
    by (simp add: empty_world_def)
  from out have "files (snd ?x) (ascii ''/tmp/tmpk3x9_q0a.mp3'') = Some ''speech'' \<and>
      fst ?x = Inr (ascii ''/tmp/tmpk3x9_q0a.mp3'', 5200 / 1000)"
    by (simp add: conv dec st mp3)
  moreover from gone have "files (snd ?x) (ascii ''/tmp/tmpk3x9_q0a.mp4'') = None"
    by (simp add: st mp4)
  moreover from call have "\<exists>rest. calls (snd ?x) =
      Subprocess (convert_argv (ascii ''/tmp/tmpk3x9_q0a.mp4'') (ascii ''/tmp/tmpk3x9_q0a.mp3''))
        # rest"
    by (simp add: st mp3 mp4 e)
  moreover from w have "fst (write_upload example_env ?u empty_world) = ascii ''/tmp/tmpk3x9_q0a.mp4''"
    by (simp add: mp4)
  ultimately show ?thesis
    using example_random_name by blast
qed

section \<open>The ffmpeg probe\<close>

lemma calls_extend_trans:
  "\<exists>xs. calls w1 = calls w @ xs \<Longrightarrow> \<exists>ys. calls w2 = calls w1 @ ys \<Longrightarrow>
   \<exists>zs. calls w2 = calls w @ zs"
  by auto

lemma quiet_calls_extend: "quiet w w' \<Longrightarrow> \<exists>xs. calls w' = calls w @ xs"
  by (blast dest: quietD)

lemma process_calls_extend: "\<exists>xs. calls (snd (process env client uf1 uf2 lang w)) = calls w @ xs"
proof -
  let ?w1 = "snd (party_branch env client Party1 uf1 lang w)"
  let ?w2 = "snd (party_branch env client Party2 uf2 lang ?w1)"
  have b: "\<exists>xs. calls ?w2 = calls w @ xs"
    using quiet_trans [OF party_branch_quiet [of w env client Party1 uf1 lang]
        party_branch_quiet [of ?w1 env client Party2 uf2 lang]]
    by (rule quiet_calls_extend)
  have c: "\<exists>ys. calls (snd (formulate_questions env client c
                 (snd (check_contradictions env client a b' ?w2)))) = calls ?w2 @ ys" for a b' c
    by (simp add: formulate_questions_calls check_contradictions_calls)
  show ?thesis
    using b calls_extend_trans [OF b c]
    by (simp add: process_eq Let_def)
qed

lemma init_openai_calls [simp]: "calls (snd (init_openai env w)) = calls w"
  by (simp add: init_openai_def split: sum.splits)

lemma main_calls:
  "\<exists>rest. calls (snd (main env inp w)) = calls w @ Subprocess probe_argv # rest"
proof (cases "ffmpeg_version env = Exited 0")
  case False
  then show ?thesis
    by (cases "ffmpeg_version env") (simp_all add: main_def check_ffmpeg_result)
next
  case True
  let ?w1 = "log_call (Subprocess probe_argv) w"
  obtain cl w2 where i: "init_openai env ?w1 = (cl, w2)"
    by fastforce
  then have w2: "calls w2 = calls w @ [Subprocess probe_argv]"
    using init_openai_calls [of env ?w1] by simp
  show ?thesis
  proof (cases cl)
    case None
    with True i w2 show ?thesis
      by (simp add: main_def check_ffmpeg_result)
  next
    case (Some client)
    show ?thesis
    proof (cases "button inp")
      case False
      with True i w2 Some show ?thesis
        by (simp add: main_def check_ffmpeg_result)
    next
      case b: True
      obtain r w3 where p: "process env client (uploaded_file_1 inp) (uploaded_file_2 inp)
          (language inp) w2 = (r, w3)"
        by fastforce
      from process_calls_extend [of env client "uploaded_file_1 inp" "uploaded_file_2 inp"
          "language inp" w2] p w2
      obtain xs where "calls w3 = calls w @ Subprocess probe_argv # xs"
        by auto
      with True i Some b p show ?thesis
        by (cases r) (simp_all add: main_def check_ffmpeg_result)
    qed
  qed
qed

text \<open>
  C10, as the code has it: when the probe exits or the executable is missing,
  \<open>check_ffmpeg\<close> returns a boolean, true exactly when the exit status is 0 and false
  when the executable is missing; when the probe cannot be started for another reason,
  the exception passes through \<open>check_ffmpeg\<close> and ends the run; the probe is the
  first call of every run of \<open>main\<close>; and when \<open>check_ffmpeg\<close> returns false the run
  stops with the error shown, having made no other call and touched no file.
\<close>

theorem ffmpeg_probe_gates_session:
  "((\<forall>msg. ffmpeg_version env \<noteq> StartFailed msg) \<longrightarrow>
      (\<exists>b. fst (check_ffmpeg env w) = Inr b \<and> (b \<longleftrightarrow> ffmpeg_version env = Exited 0))) \<and>
   (ffmpeg_version env = NotFound \<longrightarrow> fst (check_ffmpeg env w) = Inr False) \<and>
   (\<forall>msg. ffmpeg_version env = StartFailed msg \<longrightarrow>
      fst (check_ffmpeg env w) = Inl (PyException msg) \<and>
      main env inp w = (Raised (PyException msg), log_call (Subprocess probe_argv) w)) \<and>
   (\<exists>rest. calls (snd (main env inp w)) = calls w @ Subprocess probe_argv # rest) \<and>
   (fst (check_ffmpeg env w) = Inr False \<longrightarrow>
      main env inp w =
        (Stopped, st_error ffmpeg_missing_message None (log_call (Subprocess probe_argv) w)))"
proof (intro conjI)
  show "(\<forall>msg. ffmpeg_version env \<noteq> StartFailed msg) \<longrightarrow>
      (\<exists>b. fst (check_ffmpeg env w) = Inr b \<and> (b \<longleftrightarrow> ffmpeg_version env = Exited 0))"
    by (cases "ffmpeg_version env") (auto simp: check_ffmpeg_result)
  show "ffmpeg_version env = NotFound \<longrightarrow> fst (check_ffmpeg env w) = Inr False"
    by (simp add: check_ffmpeg_result)
  show "\<forall>msg. ffmpeg_version env = StartFailed msg \<longrightarrow>
      fst (check_ffmpeg env w) = Inl (PyException msg) \<and>
      main env inp w = (Raised (PyException msg), log_call (Subprocess probe_argv) w)"
    by (simp add: check_ffmpeg_result main_def)
  show "fst (check_ffmpeg env w) = Inr False \<longrightarrow>
      main env inp w =
        (Stopped, st_error ffmpeg_missing_message None (log_call (Subprocess probe_argv) w))"
    by (cases "ffmpeg_version env") (simp_all add: check_ffmpeg_result main_def)
  show "\<exists>rest. calls (snd (main env inp w)) = calls w @ Subprocess probe_argv # rest"
    by (rule main_calls)
qed

text \<open>
  Without ffmpeg, a run with two uploads and the button pressed stops after the probe;
  with an ffmpeg that may not be executed, it ends with the exception after the probe.
\<close>

theorem ffmpeg_probe_gates_session_witness:
  "(\<forall>msg. ffmpeg_version (example_env\<lparr>ffmpeg_version := NotFound\<rparr>) \<noteq> StartFailed msg) \<and>
   ffmpeg_version (example_env\<lparr>ffmpeg_version := NotFound\<rparr>) = NotFound \<and>
   fst (check_ffmpeg (example_env\<lparr>ffmpeg_version := NotFound\<rparr>) empty_world) = Inr False \<and>
   main (example_env\<lparr>ffmpeg_version := NotFound\<rparr>)
        \<lparr>uploaded_file_1 = Some (upload ''one.mp4'' ''speech''),
         uploaded_file_2 = Some (upload ''two.wav'' ''speech''),
         language = ascii ''ru'', button = True\<rparr> empty_world =
     (Stopped,
      \<lparr>files = Map.empty, ui = [StError ffmpeg_missing_message None],
       calls = [Subprocess probe_argv], tmp_count = 0\<rparr>) \<and>
   ffmpeg_version locked_env = StartFailed (ascii ''Permission denied'') \<and>
   main locked_env
        \<lparr>uploaded_file_1 = Some (upload ''one.mp4'' ''speech''),
         uploaded_file_2 = Some (upload ''two.wav'' ''speech''),
         language = ascii ''ru'', button = True\<rparr> empty_world =
     (Raised (PyException (ascii ''Permission denied'')),
      \<lparr>files = Map.empty, ui = [], calls = [Subprocess probe_argv], tmp_count = 0\<rparr>)"
  using ffmpeg_probe_gates_session [of "example_env\<lparr>ffmpeg_version := NotFound\<rparr>" empty_world
      "\<lparr>uploaded_file_1 = Some (upload ''one.mp4'' ''speech''),
         uploaded_file_2 = Some (upload ''two.wav'' ''speech''),
         language = ascii ''ru'', button = True\<rparr>"]
    ffmpeg_probe_gates_session [of locked_env empty_world
      "\<lparr>uploaded_file_1 = Some (upload ''one.mp4'' ''speech''),
         uploaded_file_2 = Some (upload ''two.wav'' ''speech''),
         language = ascii ''ru'', button = True\<rparr>"]
  by (simp add: locked_env_def example_env_def empty_world_def st_error_def log_call_def)

text \<open>
  C10 as stated fails: with an ffmpeg that may not be executed, \<open>check_ffmpeg\<close> raises
  instead of returning a boolean.
\<close>

theorem check_ffmpeg_raises_counterexample:
  "fst (check_ffmpeg locked_env empty_world) = Inl (PyException (ascii ''Permission denied''))"
  by (simp add: check_ffmpeg_def check_status_def locked_env_def Let_def)

section \<open>The audio file after a failed extraction\<close>

lemma temp_name_log_call [simp]: "temp_name env s (log_call c w) = temp_name env s w"
  by (simp add: temp_name_def log_call_def)

text \<open>
  C2 fails on the code: when ffmpeg has written the audio file and the decoder rejects
  it, \<open>extract_audio\<close> raises and the audio file stays, also after the whole run.
\<close>

theorem audio_artifact_outlives_failed_extraction:
  "fst (extract_audio example_env (upload ''one.mp4'' ''noise'') empty_world) =
     Inl (PyException (ascii ''decoding failed'')) \<and>
   files (snd (extract_audio example_env (upload ''one.mp4'' ''noise'') empty_world))
     (ascii ''/tmp/tmpk3x9_q0a.mp3'') = Some ''noise'' \<and>
   files (snd (main example_env
                \<lparr>uploaded_file_1 = Some (upload ''one.mp4'' ''noise''), uploaded_file_2 = None,
                 language = ascii ''ru'', button = True\<rparr> empty_world))
     (ascii ''/tmp/tmpk3x9_q0a.mp3'') = Some ''noise''"
proof -
  let ?u = "upload ''one.mp4'' ''noise''"
  let ?e = "PyException (ascii ''decoding failed'')"
  let ?w1 = "log_call (Subprocess probe_argv) empty_world"
  let ?c = "OpenAI (ascii ''sk-test'')"
  have conv: "ffmpeg_convert example_env (upload_data ?u) = Converted ''noise''"
    by (simp add: example_env_def upload_def)
  have dec: "decode_mp3 example_env ''noise'' = Inl ?e"
    by (simp add: example_env_def)
  have ver: "ffmpeg_version example_env = Exited 0"
    and key: "secrets_openai_api_key example_env = Inr (ascii ''sk-test'')"
    by (simp_all add: example_env_def)
  have a: "fst (extract_audio example_env ?u w) = Inl ?e \<and>
      files (snd (extract_audio example_env ?u w))
        (fst (os_path_splitext (temp_name example_env (ascii ''.mp4'') w)) @ ascii ''.mp3'') =
      Some ''noise''" for w
    using extract_audio_outcome [of example_env ?u w "fst (extract_audio example_env ?u w)"
        "snd (extract_audio example_env ?u w)"]
    by (simp add: conv dec)
  have pp: "process_party example_env ?c Party1 ?u (ascii ''ru'') ?w1 =
      (no_result, st_error (party_error_prefix Party1) (Some ?e)
         (snd (extract_audio example_env ?u ?w1)))"
    using a [of ?w1] by (intro process_party_extract_fails) simp
  have "snd (main example_env
                \<lparr>uploaded_file_1 = Some ?u, uploaded_file_2 = None,
                 language = ascii ''ru'', button = True\<rparr> empty_world) =
      st_warning party2_missing_warning
        (st_error party1_error_prefix (Some ?e) (snd (extract_audio example_env ?u ?w1)))"
    by (simp add: main_def check_ffmpeg_result ver init_openai_def key process_def Let_def
        party_branch_def pp no_result_def)
  then have "files (snd (main example_env
                \<lparr>uploaded_file_1 = Some ?u, uploaded_file_2 = None,
                 language = ascii ''ru'', button = True\<rparr> empty_world))
      (ascii ''/tmp/tmpk3x9_q0a.mp3'') = Some ''noise''"
    using a [of ?w1] by (simp add: example_audio_path)
  with a [of empty_world] show ?thesis
    by (simp add: example_audio_path)
qed

end
